theory Spec2Isabelle
  imports Complex_Main "HOL-Library.Word"
begin

section \<open>JavaScript numbers\<close>

text \<open>
  A JavaScript number is an IEEE 754 binary64 value. Audio levels and configured values
  are modelled by the \<open>real\<close> such a value denotes, and every arithmetic operation of
  the source on them rounds its exact result with \<open>fl\<close>: to the nearest binary64
  value, ties to the even significand, with gradual underflow below \<open>2 ^ - 1022\<close>. A
  decimal literal of the source such as \<open>0.1\<close> is \<open>fl 0.1\<close>. Comparisons,
  \<open>Math.max\<close> and \<open>Math.min\<close> are exact. Overflow to \<open>Infinity\<close>, \<open>NaN\<close> and
  the sign of zero are not modelled. The clock readings of \<open>Date.now()\<close> are whole
  milliseconds far below \<open>2 ^ 53\<close>, where binary64 arithmetic is exact: they are
  modelled as \<open>int\<close>.
\<close>

definition round_even :: "real \<Rightarrow> int" where
  "round_even y =
     (let f = \<lfloor>y\<rfloor> in
      if y - of_int f < 1 / 2 then f
      else if 1 / 2 < y - of_int f then f + 1
      else if even f then f else f + 1)"

definition fl :: "real \<Rightarrow> real" where
  "fl x =
     (if x = 0 then 0
      else
        (let e = max \<lfloor>log 2 \<bar>x\<bar>\<rfloor> (- 1022);
             q = 2 powr (of_int (e - 52))
         in of_int (round_even (x / q)) * q))"

definition fadd :: "real \<Rightarrow> real \<Rightarrow> real" where
  "fadd a b = fl (a + b)"

definition fsub :: "real \<Rightarrow> real \<Rightarrow> real" where
  "fsub a b = fl (a - b)"

definition fmul :: "real \<Rightarrow> real \<Rightarrow> real" where
  "fmul a b = fl (a * b)"

definition fdiv :: "real \<Rightarrow> real \<Rightarrow> real" where
  "fdiv a b = fl (a / b)"

section \<open>The voice activity detector (voice-orb-vad.js)\<close>

text \<open>
  The value \<open>0\<close> of a timer field is the source's own sentinel for "no timer running".
\<close>

subsection \<open>Configuration and state\<close>

text \<open>The five tunables of \<open>this.config\<close> that the detection logic reads.\<close>

record vad_config =
  threshold :: real
  minDuration :: real
  maxSilence :: real
  sensitivity :: real
  smoothing :: real

text \<open>
  The fields of \<open>this.state\<close>, together with \<open>this.animationFrame\<close> (the handle of
  the pending animation frame request, \<open>None\<close> for \<open>null\<close>).
\<close>

record detector =
  isActive :: bool
  isVoiceDetected :: bool
  currentLevel :: real
  smoothedLevel :: real
  lastVoiceTime :: int
  voiceStartTime :: int
  silenceStartTime :: int
  isConnected :: bool
  animationFrame :: "nat option"

text \<open>
  The events the detector triggers; \<open>VoiceLevel raw smoothed timestamp\<close>. The payload
  of \<open>error\<close>, the exception caught, is left out.
\<close>

datatype vad_event = VoiceStart | VoiceEnd | VoiceLevel real real int | Error

text \<open>
  What a call does besides changing the detector: \<open>Trigger ev d\<close> is a call of
  \<open>this.trigger\<close>, with the detector \<open>d\<close> as it is at that moment (every callback
  receives \<open>this\<close> as its second argument, so a listener observes exactly \<open>d\<close>);
  \<open>RequestFrame\<close> is a call of \<open>requestAnimationFrame(analyze)\<close>, \<open>CancelFrame\<close> one of
  \<open>cancelAnimationFrame\<close>. Listeners are not modelled as calling back into the detector.
\<close>

datatype effect = Trigger vad_event detector | RequestFrame | CancelFrame nat

definition trigger :: "vad_event \<Rightarrow> detector \<Rightarrow> effect list" where
  "trigger ev d = [Trigger ev d]"

fun events :: "effect list \<Rightarrow> vad_event list" where
  "events [] = []"
| "events (Trigger ev d # es) = ev # events es"
| "events (RequestFrame # es) = events es"
| "events (CancelFrame i # es) = events es"

text \<open>The defaults of the constructor.\<close>

definition default_config :: vad_config where
  "default_config =
     \<lparr>threshold = fl 0.01, minDuration = 150, maxSilence = 800, sensitivity = fl 0.6,
      smoothing = fl 0.85\<rparr>"

definition initial_detector :: detector where
  "initial_detector =
     \<lparr>isActive = False, isVoiceDetected = False, currentLevel = 0, smoothedLevel = 0,
      lastVoiceTime = 0, voiceStartTime = 0, silenceStartTime = 0, isConnected = False,
      animationFrame = None\<rparr>"

subsection \<open>processVoiceActivity\<close>

text \<open>Lines 214-224: the exponential average, \<open>currentLevel\<close>, the level event.\<close>

definition smoothLevel :: "vad_config \<Rightarrow> detector \<Rightarrow> real \<Rightarrow> detector" where
  "smoothLevel c s level =
     (let s1 = s\<lparr>smoothedLevel :=
                  fadd (fmul (smoothedLevel s) (smoothing c))
                       (fmul level (fsub 1 (smoothing c)))\<rparr>
      in s1\<lparr>currentLevel := level\<rparr>)"

text \<open>Lines 226-253: the branch on \<open>isAboveThreshold\<close>.\<close>

definition thresholdBranch :: "vad_config \<Rightarrow> detector \<Rightarrow> int \<Rightarrow> detector \<times> effect list" where
  "thresholdBranch c s now =
     (let isAboveThreshold = (smoothedLevel s > threshold c) in
      if isAboveThreshold then
        (let s1 = s\<lparr>lastVoiceTime := now\<rparr> in
         if \<not> isVoiceDetected s1 then
           (if voiceStartTime s1 = 0 then (s1\<lparr>voiceStartTime := now\<rparr>, [])
            else if real_of_int (now - voiceStartTime s1) \<ge> minDuration c then
              (let s2 = s1\<lparr>isVoiceDetected := True, silenceStartTime := 0\<rparr>
               in (s2, trigger VoiceStart s2))
            else (s1, []))
         else (s1, []))
      else
        (let s1 = (if isVoiceDetected s \<and> silenceStartTime s = 0
                   then s\<lparr>silenceStartTime := now\<rparr> else s);
             s2 = (if \<not> isVoiceDetected s1 then s1\<lparr>voiceStartTime := 0\<rparr> else s1)
         in (s2, [])))"

text \<open>Lines 255-264: the end of voice after \<open>maxSilence\<close>.\<close>

definition silenceCheck :: "vad_config \<Rightarrow> detector \<Rightarrow> int \<Rightarrow> detector \<times> effect list" where
  "silenceCheck c s now =
     (if isVoiceDetected s \<and> silenceStartTime s > 0 then
        (if real_of_int (now - silenceStartTime s) \<ge> maxSilence c then
           (let s1 = s\<lparr>isVoiceDetected := False, voiceStartTime := 0,
                         silenceStartTime := 0\<rparr>
            in (s1, trigger VoiceEnd s1))
         else (s, []))
      else (s, []))"

text \<open>
  The whole method; \<open>now\<close> is the value \<open>Date.now()\<close> returns at its first line.
\<close>

definition processVoiceActivity ::
  "vad_config \<Rightarrow> detector \<Rightarrow> real \<Rightarrow> int \<Rightarrow> detector \<times> effect list" where
  "processVoiceActivity c s level now =
     (let s1 = smoothLevel c s level;
          e1 = trigger (VoiceLevel level (smoothedLevel s1) now) s1;
          (s2, e2) = thresholdBranch c s1 now;
          (s3, e3) = silenceCheck c s2 now
      in (s3, e1 @ e2 @ e3))"

text \<open>
  A sequence of processed samples, each a level with the clock reading of its tick:
  \<open>run\<close> is the detector after all of them, \<open>ticks\<close> lists, tick by tick, the detector
  after the tick and what the tick did.
\<close>

fun run :: "vad_config \<Rightarrow> detector \<Rightarrow> (real \<times> int) list \<Rightarrow> detector" where
  "run c s [] = s"
| "run c s (x # xs) = run c (fst (processVoiceActivity c s (fst x) (snd x))) xs"

fun ticks :: "vad_config \<Rightarrow> detector \<Rightarrow> (real \<times> int) list \<Rightarrow> (detector \<times> effect list) list" where
  "ticks c s [] = []"
| "ticks c s (x # xs) =
     processVoiceActivity c s (fst x) (snd x) #
     ticks c (fst (processVoiceActivity c s (fst x) (snd x))) xs"

text \<open>Whether a tick (or a call) triggered the event.\<close>

definition fired :: "vad_event \<Rightarrow> detector \<times> effect list \<Rightarrow> bool" where
  "fired ev r = (ev \<in> set (events (snd r)))"

subsection \<open>resetVADState, the analysis loop, start and stop\<close>

definition resetVADState :: "detector \<Rightarrow> detector" where
  "resetVADState s =
     s\<lparr>isVoiceDetected := False, lastVoiceTime := 0, voiceStartTime := 0,
       silenceStartTime := 0, currentLevel := 0, smoothedLevel := 0\<rparr>"

text \<open>
  One run of the closure \<open>analyze\<close> of \<open>startAnalysis\<close>. The environment supplies
  \<open>freq\<close>, the bytes \<open>getByteFrequencyData\<close> writes into \<open>dataArray\<close> (a
  \<open>Uint8Array\<close>), \<open>now\<close>, and \<open>fid\<close>, the handle \<open>requestAnimationFrame\<close>
  returns. The sum of the bytes is a whole number far below \<open>2 ^ 53\<close> and exact. For
  an empty array JavaScript computes NaN, which the model does not have: what is stated
  about the level of a frame assumes \<open>freq \<noteq> []\<close> (the array has \<open>fftSize / 2\<close>
  entries).
\<close>

definition analyze ::
  "vad_config \<Rightarrow> detector \<Rightarrow> 8 word list \<Rightarrow> int \<Rightarrow> nat \<Rightarrow> detector \<times> effect list" where
  "analyze c s freq now fid =
     (if \<not> isActive s then (s, [])
      else
        (let sum = sum_list (map unat freq);
             average = fdiv (real sum) (real (length freq));
             normalizedLevel = fmul (fdiv average 255) (sensitivity c);
             (s1, e1) = processVoiceActivity c s normalizedLevel now
         in (s1\<lparr>animationFrame := Some fid\<rparr>, e1 @ [RequestFrame])))"

definition startAnalysis ::
  "vad_config \<Rightarrow> detector \<Rightarrow> 8 word list \<Rightarrow> int \<Rightarrow> nat \<Rightarrow> detector \<times> effect list" where
  "startAnalysis c s freq now fid = analyze c s freq now fid"

definition start ::
  "vad_config \<Rightarrow> detector \<Rightarrow> 8 word list \<Rightarrow> int \<Rightarrow> nat \<Rightarrow> bool \<times> detector \<times> effect list" where
  "start c s freq now fid =
     (if \<not> isConnected s then (False, s, [])
      else if isActive s then (True, s, [])
      else
        (let s1 = resetVADState s;
             s2 = s1\<lparr>isActive := True\<rparr>;
             (s3, e) = startAnalysis c s2 freq now fid
         in (True, s3, e)))"

text \<open>
  \<open>if (this.animationFrame)\<close> is true for a handle other than \<open>null\<close> and \<open>0\<close>.
\<close>

definition stop :: "detector \<Rightarrow> bool \<times> detector \<times> effect list" where
  "stop s =
     (if \<not> isActive s then (True, s, [])
      else
        (let s1 = s\<lparr>isActive := False\<rparr>;
             (s2, e1) =
               (case animationFrame s1 of
                  None \<Rightarrow> (s1, [])
                | Some fid \<Rightarrow>
                    if fid \<noteq> 0 then (s1\<lparr>animationFrame := None\<rparr>, [CancelFrame fid])
                    else (s1, []));
             (s3, e2) =
               (if isVoiceDetected s2 then
                  (let s' = s2\<lparr>isVoiceDetected := False\<rparr> in (s', trigger VoiceEnd s'))
                else (s2, []))
         in (True, s3, e1 @ e2)))"

subsection \<open>connect, disconnect and the life of a detector\<close>

text \<open>
  \<open>connect\<close> waits for the microphone and builds the audio graph; \<open>granted\<close> says
  whether all of that succeeded. Of the audio objects only \<open>isConnected\<close> is kept.
\<close>

definition connect :: "detector \<Rightarrow> bool \<Rightarrow> bool \<times> detector \<times> effect list" where
  "connect s granted =
     (if granted then (True, s\<lparr>isConnected := True\<rparr>, [])
      else (False, s, trigger Error s))"

definition disconnect :: "detector \<Rightarrow> detector \<times> effect list" where
  "disconnect s =
     (let (ok, s1, e) = stop s
      in (s1\<lparr>isConnected := False\<rparr>, e))"

text \<open>
  What happens to a detector from outside: a call of \<open>connect\<close>, \<open>start\<close>,
  \<open>stop\<close> or \<open>disconnect\<close>, or an animation frame running \<open>analyze\<close>; each under
  the configuration of that moment (\<open>updateConfig\<close> may change it in between).
  \<open>processVoiceActivity\<close> runs inside \<open>analyze\<close> only, and the listeners the
  repository registers call the controller, never the detector. \<open>lifecycle\<close> is the
  detector a sequence of these operations leaves, from the constructor's state.
\<close>

datatype op =
  Connect bool
| Start "8 word list" int nat
| Stop
| Disconnect
| Frame "8 word list" int nat

fun apply_op :: "detector \<Rightarrow> vad_config \<times> op \<Rightarrow> detector" where
  "apply_op s (c, Connect granted) = fst (snd (connect s granted))"
| "apply_op s (c, Start freq now fid) = fst (snd (start c s freq now fid))"
| "apply_op s (c, Stop) = fst (snd (stop s))"
| "apply_op s (c, Disconnect) = fst (disconnect s)"
| "apply_op s (c, Frame freq now fid) = fst (analyze c s freq now fid)"

definition lifecycle :: "(vad_config \<times> op) list \<Rightarrow> detector" where
  "lifecycle ops = foldl apply_op initial_detector ops"

text \<open>An active detector is connected, and one with voice detected is active.\<close>

definition wellformed :: "detector \<Rightarrow> bool" where
  "wellformed s = ((isActive s \<longrightarrow> isConnected s) \<and> (isVoiceDetected s \<longrightarrow> isActive s))"

subsection \<open>Observations on what a call did\<close>

text \<open>Whether the smoothed level of a tick is above the threshold (\<open>isAboveThreshold\<close>).\<close>

definition above :: "vad_config \<Rightarrow> detector \<times> effect list \<Rightarrow> bool" where
  "above c r = (threshold c < smoothedLevel (fst r))"


text \<open>The detector as the listeners of an event saw it, one entry per emission.\<close>

fun snapshots :: "vad_event \<Rightarrow> effect list \<Rightarrow> detector list" where
  "snapshots ev [] = []"
| "snapshots ev (Trigger ev' d # es) =
     (if ev' = ev then d # snapshots ev es else snapshots ev es)"
| "snapshots ev (RequestFrame # es) = snapshots ev es"
| "snapshots ev (CancelFrame i # es) = snapshots ev es"

text \<open>
  The level \<open>analyze\<close> passes to \<open>processVoiceActivity\<close> for a frame of frequency
  data: the mean byte, normalised by 255 and scaled by the sensitivity.
\<close>

definition frameLevel :: "vad_config \<Rightarrow> 8 word list \<Rightarrow> real" where
  "frameLevel c freq =
     fmul (fdiv (fdiv (real (sum_list (map unat freq))) (real (length freq))) 255)
          (sensitivity c)"

subsection \<open>Concrete inputs\<close>

text \<open>
  The configuration of the two scenarios of the specification:
  threshold 0.1, minDuration 100, maxSilence 200, sensitivity 1, smoothing 0.
\<close>

definition scenario_config :: vad_config where
  "scenario_config =
     \<lparr>threshold = fl 0.1, minDuration = 100, maxSilence = 200, sensitivity = 1,
      smoothing = 0\<rparr>"

text \<open>
  Speech, one sample of silence, then speech again: levels with their clock readings.
\<close>

definition interrupted_silence :: "(real \<times> int) list" where
  "interrupted_silence =
     [(0.5, 1000), (0.5, 1050), (0.5, 1100), (0, 1150), (0.5, 1250), (0.5, 1350)]"



text \<open>A running detector in the middle of a voice period.\<close>

definition speaking_detector :: detector where
  "speaking_detector =
     \<lparr>isActive = True, isVoiceDetected = True, currentLevel = 0.5, smoothedLevel = 0.5,
      lastVoiceTime = 1100, voiceStartTime = 1000, silenceStartTime = 0, isConnected = True,
      animationFrame = Some 7\<rparr>"

section \<open>The animation controller (voice-orb-core.js)\<close>

text \<open>
  \<open>Math.max(lo, Math.min(hi, x))\<close>, the clamping idiom of \<open>setSpeed\<close>,
  \<open>setVoiceLevel\<close> and the level handler of the orchestrator. For \<open>lo > hi\<close> it
  returns \<open>lo\<close>.
\<close>

definition clamp :: "real \<Rightarrow> real \<Rightarrow> real \<Rightarrow> real" where
  "clamp lo hi x = max lo (min hi x)"

record core_config =
  defaultSpeed :: real
  minSpeed :: real
  maxSpeed :: real
  autoLoop :: bool
  minOpacity :: real
  maxOpacity :: real
  minVoiceLevel :: real
  maxVoiceLevel :: real

text \<open>
  The player element, as far as the controller writes it: its \<open>speed\<close> and \<open>loop\<close>
  properties and \<open>style.opacity\<close> (\<open>None\<close> while never written). Writing a property
  does not throw, so the \<open>catch\<close> branches of \<open>setSpeed\<close> and \<open>setVoiceLevel\<close> are
  never taken; a listener that throws is caught inside \<open>trigger\<close>.
\<close>

record lottie_player =
  speed :: real
  loop :: bool
  style_opacity :: "real option"

text \<open>The fields of \<open>this.state\<close> of the controller, and \<open>this.player\<close>.\<close>

record core =
  isInitialized :: bool
  isPlaying :: bool
  isLooping :: bool
  currentSpeed :: real
  voiceLevel :: real
  opacity :: real
  player :: "lottie_player option"

text \<open>The two events the modelled methods trigger, with their payloads.\<close>

datatype orb_event = SpeedChange real | VoiceChange real real

definition default_core_config :: core_config where
  "default_core_config =
     \<lparr>defaultSpeed = 1, minSpeed = fl 0.1, maxSpeed = 3, autoLoop = True,
      minOpacity = fl 0.8, maxOpacity = 1.0, minVoiceLevel = fl 0.1, maxVoiceLevel = 3\<rparr>"

definition isReady :: "core \<Rightarrow> bool" where
  "isReady orb = (isInitialized orb \<and> player orb \<noteq> None)"

definition setSpeed :: "core_config \<Rightarrow> core \<Rightarrow> real \<Rightarrow> bool \<times> core \<times> orb_event list" where
  "setSpeed cfg orb sp =
     (if \<not> isReady orb then (False, orb, [])
      else
        (let clampedSpeed = clamp (minSpeed cfg) (maxSpeed cfg) sp;
             orb1 = orb\<lparr>player :=
                      map_option (\<lambda>p. p\<lparr>speed := clampedSpeed\<rparr>) (player orb)\<rparr>;
             orb2 = orb1\<lparr>currentSpeed := clampedSpeed\<rparr>
         in (True, orb2, [SpeedChange clampedSpeed])))"

definition setVoiceLevel ::
  "core_config \<Rightarrow> core \<Rightarrow> real \<Rightarrow> bool \<times> core \<times> orb_event list" where
  "setVoiceLevel cfg orb level =
     (if \<not> isReady orb then (False, orb, [])
      else
        (let clampedLevel = clamp (minVoiceLevel cfg) (maxVoiceLevel cfg) level;
             (ok, orb1, e1) = setSpeed cfg orb clampedLevel;
             newOpacity = clamp (minOpacity cfg) (maxOpacity cfg) (fdiv clampedLevel 2);
             orb2 = orb1\<lparr>player :=
                      map_option (\<lambda>p. p\<lparr>style_opacity := Some newOpacity\<rparr>) (player orb1)\<rparr>;
             orb3 = orb2\<lparr>voiceLevel := clampedLevel\<rparr>;
             orb4 = orb3\<lparr>opacity := newOpacity\<rparr>
         in (True, orb4, e1 @ [VoiceChange clampedLevel newOpacity])))"

text \<open>The default configuration with the greatest voice level lowered to 1.\<close>

definition narrow_core_config :: core_config where
  "narrow_core_config = default_core_config\<lparr>maxVoiceLevel := 1\<rparr>"

text \<open>An initialised controller with a player attached.\<close>

definition ready_core :: core where
  "ready_core =
     \<lparr>isInitialized = True, isPlaying = False, isLooping = True, currentSpeed = 1,
      voiceLevel = 1, opacity = 1,
      player = Some \<lparr>speed = 1, loop = True, style_opacity = None\<rparr>\<rparr>"

section \<open>The orchestrator (voice-orb.js)\<close>

text \<open>
  A listener registered on the detector is modelled by the controller methods it
  invokes, in order, when it is called with the event's data. \<open>eventListeners\<close> maps an
  event name to its listeners in registration order; a name without an entry has none.
\<close>

datatype orb_call = Play | Pause | SetVoiceLevel real

type_synonym listener = "vad_event \<Rightarrow> orb_call list"

type_synonym registry = "string \<Rightarrow> listener list"

definition eventName :: "vad_event \<Rightarrow> string" where
  "eventName ev =
     (case ev of VoiceStart \<Rightarrow> ''voiceStart'' | VoiceEnd \<Rightarrow> ''voiceEnd''
      | VoiceLevel r sm t \<Rightarrow> ''voiceLevel'' | Error \<Rightarrow> ''error'')"

definition on :: "registry \<Rightarrow> string \<Rightarrow> listener \<Rightarrow> registry" where
  "on reg event callback = reg(event := reg event @ [callback])"

text \<open>
  The \<open>forEach\<close> of \<open>trigger\<close> over the registered listeners. (The configuration
  callbacks \<open>onVoiceStart\<close>, ... are the user's and call no controller method.)
\<close>

definition dispatch :: "registry \<Rightarrow> vad_event \<Rightarrow> orb_call list" where
  "dispatch reg ev = concat (map (\<lambda>callback. callback ev) (reg (eventName ev)))"

definition setupVADHandlers :: "registry \<Rightarrow> registry" where
  "setupVADHandlers reg =
     (let reg1 = on reg ''voiceStart'' (\<lambda>data. [Play]);
          reg2 = on reg1 ''voiceEnd'' (\<lambda>data. [Pause]);
          reg3 = on reg2 ''voiceLevel''
                   (\<lambda>data. case data of
                       VoiceLevel raw smoothed timestamp \<Rightarrow>
                         (let level = clamp (fl 0.1) 3 (fmul smoothed 3)
                          in [SetVoiceLevel level])
                     | _ \<Rightarrow> [])
      in reg3)"

text \<open>The registry of a freshly constructed detector.\<close>

definition no_listeners :: registry where
  "no_listeners = (\<lambda>event. [])"

text \<open>The controller calls the listeners make for the events of one detector call.\<close>

definition controllerCalls :: "registry \<Rightarrow> effect list \<Rightarrow> orb_call list" where
  "controllerCalls reg es = concat (map (dispatch reg) (events es))"

section \<open>Rounding\<close>

lemma two_powr_pos: "(2::real) powr (of_int (int n)) = 2 ^ n"
  by (simp add: powr_realpow)

lemma two_powr_neg: "(2::real) powr (of_int (- int n)) = 1 / 2 ^ n"
  by (simp add: powr_minus powr_realpow inverse_eq_divide)

lemma two_powr_succ: "(2::real) powr (of_int k + 1) = 2 * 2 powr (of_int k)"
  using powr_add [of "2::real" "of_int k" 1] by simp

lemma fl_zero: "fl 0 = 0"
  by (simp add: fl_def)


text \<open>
  The rounding of a number whose binary exponent is known: for \<open>x\<close> with
  \<open>2 ^ - n \<le> \<bar>x\<bar> < 2 ^ (1 - n)\<close> in the normal range, and for \<open>x\<close> with
  \<open>2 ^ n \<le> \<bar>x\<bar> < 2 ^ (n + 1)\<close>.
\<close>

lemma fl_small:
  assumes "1 \<le> \<bar>x\<bar> * 2 ^ n" and "\<bar>x\<bar> * 2 ^ n < 2" and "n \<le> 1022"
  shows "fl x = of_int (round_even (x * 2 ^ (n + 52))) / 2 ^ (n + 52)"
proof -
  have nz: "x \<noteq> 0" using assms(1) by auto
  then have pos: "0 < \<bar>x\<bar>" by simp
  have lo: "(2::real) powr (of_int (- int n)) \<le> \<bar>x\<bar>"
    using assms(1) unfolding two_powr_neg by (simp add: field_simps)
  have "(2::real) powr (of_int (- int n) + 1) = 2 * (1 / 2 ^ n)"
    by (simp only: two_powr_succ two_powr_neg)
  moreover have "\<bar>x\<bar> < 2 * (1 / 2 ^ n)"
    using assms(2) by (simp add: field_simps)
  ultimately have hi: "\<bar>x\<bar> < (2::real) powr (of_int (- int n) + 1)"
    by (simp only:)
  from lo hi have e: "\<lfloor>log 2 \<bar>x\<bar>\<rfloor> = - int n"
    using pos floor_log_eq_powr_iff [of "\<bar>x\<bar>" 2 "- int n"] by simp
  have m: "max (- int n) (- 1022) - 52 = - int (n + 52)"
    using assms(3) by simp
  have q: "(2::real) powr (of_int (max (- int n) (- 1022) - 52)) = 1 / 2 ^ (n + 52)"
    unfolding m by (rule two_powr_neg)
  show ?thesis
    unfolding fl_def Let_def e q using nz by simp
qed

lemma fl_big:
  assumes "2 ^ n \<le> \<bar>x\<bar>" and "\<bar>x\<bar> < 2 * 2 ^ n"
  shows "fl x = of_int (round_even (x * 2 ^ 52 / 2 ^ n)) * 2 ^ n / 2 ^ 52"
proof -
  have pos: "0 < \<bar>x\<bar>"
    using assms(1) by (smt (verit) zero_less_power)
  then have nz: "x \<noteq> 0" by auto
  have lo: "(2::real) powr (of_int (int n)) \<le> \<bar>x\<bar>"
    using assms(1) unfolding two_powr_pos .
  have "(2::real) powr (of_int (int n) + 1) = 2 * 2 ^ n"
    by (simp only: two_powr_succ two_powr_pos)
  then have hi: "\<bar>x\<bar> < (2::real) powr (of_int (int n) + 1)"
    using assms(2) by simp
  from lo hi have e: "\<lfloor>log 2 \<bar>x\<bar>\<rfloor> = int n"
    using pos floor_log_eq_powr_iff [of "\<bar>x\<bar>" 2 "int n"] by simp
  have q: "(2::real) powr (of_int (max (int n) (- 1022) - 52)) = 2 ^ n / 2 ^ 52"
  proof -
    have "max (int n) (- 1022) - 52 = int n + (- int 52)" by simp
    then have "(2::real) powr (of_int (max (int n) (- 1022) - 52)) =
        2 powr (of_int (int n)) * 2 powr (of_int (- int 52))"
      by (simp only: of_int_add powr_add)
    then show ?thesis
      by (simp only: two_powr_pos two_powr_neg) simp
  qed
  show ?thesis
    unfolding fl_def Let_def e q using nz by (simp add: field_simps)
qed

text \<open>
  Together these evaluate \<open>fl\<close> at any numeral between \<open>2 ^ - 10\<close> and \<open>2 ^ 9\<close>.
\<close>

lemmas fl_evals = fl_zero round_even_def
  fl_small [where n = 1] fl_small [where n = 2] fl_small [where n = 3]
  fl_small [where n = 4] fl_small [where n = 5] fl_small [where n = 6]
  fl_small [where n = 7] fl_small [where n = 8] fl_small [where n = 9]
  fl_small [where n = 10]
  fl_big [where n = 0] fl_big [where n = 1] fl_big [where n = 2] fl_big [where n = 3]
  fl_big [where n = 4] fl_big [where n = 5] fl_big [where n = 6] fl_big [where n = 7]
  fl_big [where n = 8]

lemmas double_defs = fadd_def fsub_def fmul_def fdiv_def


text \<open>
  Rounding does not cross a power of two: a value of at least 1 is rounded to at least
  1, and a value of at most 1/4 to at most 1/2.
\<close>

lemma floor_log_bounds:
  assumes "0 < x"
  shows "2 powr of_int \<lfloor>log 2 x\<rfloor> \<le> x" and "x < 2 powr of_int (\<lfloor>log 2 x\<rfloor> + 1)"
proof -
  have "of_int \<lfloor>log 2 x\<rfloor> \<le> log 2 x" by simp
  then have "2 powr of_int \<lfloor>log 2 x\<rfloor> \<le> 2 powr log 2 x"
    by (simp only: powr_le_cancel_iff) 
  then show "2 powr of_int \<lfloor>log 2 x\<rfloor> \<le> x" using assms by simp
  have "log 2 x < of_int (\<lfloor>log 2 x\<rfloor> + 1)" by linarith
  then have "2 powr log 2 x < 2 powr of_int (\<lfloor>log 2 x\<rfloor> + 1)"
    by (simp only: powr_less_cancel_iff)
  then show "x < 2 powr of_int (\<lfloor>log 2 x\<rfloor> + 1)" using assms by simp
qed

lemma round_even_ge: "of_int n \<le> y \<Longrightarrow> n \<le> round_even y"
  unfolding round_even_def Let_def by (simp add: le_floor_iff; linarith)

lemma round_even_le: "y \<le> of_int n \<Longrightarrow> round_even y \<le> n"
  unfolding round_even_def Let_def
  by (simp; linarith)


lemma two_powr_shift: "(2 :: real) powr (of_int k - 52) = 2 powr of_int k / 2 ^ 52"
proof -
  have "(2 :: real) powr (of_int k - 52) = 2 powr of_int k / 2 powr 52" by (rule powr_diff)
  also have "(2 :: real) powr 52 = 2 ^ 52"
    using powr_realpow [of 2 52] by simp
  finally show ?thesis .
qed

lemma fl_pos_unfold:
  assumes "0 < x"
  shows "fl x = of_int (round_even (x * 2 ^ 52 / 2 powr of_int (max \<lfloor>log 2 x\<rfloor> (- 1022)))) *
           2 powr of_int (max \<lfloor>log 2 x\<rfloor> (- 1022)) / 2 ^ 52"
  using assms by (simp add: fl_def Let_def two_powr_shift)

lemma fl_ge_one:
  assumes "1 \<le> x"
  shows "1 \<le> fl x"
proof -
  let ?k = "\<lfloor>log 2 x\<rfloor>"
  have x: "0 < x" using assms by simp
  have "0 \<le> log 2 x" using assms by simp
  then have k: "0 \<le> ?k" by simp
  then have e: "max ?k (- 1022) = ?k" by simp
  have p: "0 < (2 :: real) powr of_int ?k" by simp
  have one: "1 \<le> (2 :: real) powr of_int ?k"
    using k by (simp add: ge_one_powr_ge_zero)
  from floor_log_bounds(1) [OF x] p
  have "2 ^ 52 \<le> x * 2 ^ 52 / 2 powr of_int ?k"
    by (simp add: field_simps)
  then have "of_int (2 ^ 52) \<le> x * 2 ^ 52 / 2 powr of_int ?k" by simp
  then have "2 ^ 52 \<le> round_even (x * 2 ^ 52 / 2 powr of_int ?k)"
    by (rule round_even_ge)
  then have "(2 ^ 52 :: real) \<le> of_int (round_even (x * 2 ^ 52 / 2 powr of_int ?k))"
    by (metis of_int_le_iff of_int_numeral of_int_power)
  then have "2 ^ 52 * 2 powr of_int ?k \<le>
      real_of_int (round_even (x * 2 ^ 52 / 2 powr of_int ?k)) * 2 powr of_int ?k"
    using p by (simp only: mult_le_cancel_right_pos)
  then have "2 powr of_int ?k \<le> fl x"
    unfolding fl_pos_unfold [OF x] e by (simp add: field_simps)
  with one show ?thesis by linarith
qed

lemma fl_le_half:
  assumes "x \<le> 1 / 4"
  shows "fl x \<le> 1 / 2"
proof (cases "0 < x")
  case False
  then have "x \<le> 0" by simp
  show ?thesis
  proof (cases "x = 0")
    case True
    then show ?thesis by (simp add: fl_def)
  next
    case False
    with \<open>x \<le> 0\<close> have neg: "x < 0" by simp
    let ?q = "(2 :: real) powr of_int (max \<lfloor>log 2 \<bar>x\<bar>\<rfloor> (- 1022) - 52)"
    have q: "0 < ?q" by simp
    from neg q have "x / ?q \<le> of_int 0" by (simp add: divide_nonpos_pos)
    then have "round_even (x / ?q) \<le> 0" by (rule round_even_le)
    then have "of_int (round_even (x / ?q)) * ?q \<le> 0"
      using q by (simp add: mult_le_0_iff)
    then have "fl x \<le> 0" using False by (simp add: fl_def Let_def)
    then show ?thesis by simp
  qed
next
  case True
  let ?k = "\<lfloor>log 2 x\<rfloor>"
  let ?e = "max ?k (- 1022)"
  have "log 2 x \<le> log 2 (1 / 4)" using True assms by simp
  also have "log 2 (1 / 4) = - 2"
    using log_powr_cancel [of 2 "- 2"] by (simp add: powr_minus divide_simps) 
  finally have "?k \<le> - 2" by (simp add: floor_le_iff)
  then have e: "?e \<le> - 2" by simp
  have p: "0 < (2 :: real) powr of_int ?e" by simp
  have "x < 2 powr of_int (?k + 1)" by (rule floor_log_bounds(2) [OF True])
  also have "\<dots> \<le> 2 powr (of_int ?e + 1)" by simp
  also have "\<dots> = 2 * 2 powr of_int ?e" by (rule two_powr_succ)
  finally have "x * 2 ^ 52 / 2 powr of_int ?e \<le> 2 * 2 ^ 52"
    using p by (simp add: field_simps)
  then have "x * 2 ^ 52 / 2 powr of_int ?e \<le> of_int (2 * 2 ^ 52)" by simp
  then have "round_even (x * 2 ^ 52 / 2 powr of_int ?e) \<le> 2 * 2 ^ 52"
    by (rule round_even_le)
  then have "of_int (round_even (x * 2 ^ 52 / 2 powr of_int ?e)) \<le> (2 * 2 ^ 52 :: real)"
    by (metis of_int_le_iff of_int_numeral of_int_power of_int_mult)
  then have "real_of_int (round_even (x * 2 ^ 52 / 2 powr of_int ?e)) * 2 powr of_int ?e \<le>
      2 * 2 ^ 52 * 2 powr of_int ?e"
    using p by (simp only: mult_le_cancel_right_pos)
  then have bound: "fl x \<le> 2 * 2 powr of_int ?e"
    unfolding fl_pos_unfold [OF True] by (simp add: field_simps)
  from e have "real_of_int ?e \<le> of_int (- 2)"
    by (simp only: of_int_le_iff)
  then have "(2 :: real) powr of_int ?e \<le> 2 powr of_int (- 2)"
    by (rule powr_mono) simp
  moreover have "(2 :: real) powr of_int (- 2) = 1 / 4"
    using two_powr_neg [of 2] by simp
  ultimately show ?thesis using bound by linarith
qed

section \<open>Facts about one tick and about sequences of ticks\<close>

lemmas pva_defs = processVoiceActivity_def smoothLevel_def thresholdBranch_def
  silenceCheck_def trigger_def Let_def fired_def

lemmas scenario_defs = pva_defs scenario_config_def initial_detector_def
  resetVADState_def interrupted_silence_def double_defs fl_evals

lemma ticks_length: "length (ticks c s xs) = length xs"
  by (induction xs arbitrary: s) simp_all

lemma run_append: "run c s (xs @ ys) = run c (run c s xs) ys"
  by (induction xs arbitrary: s) simp_all

text \<open>Tick \<open>k\<close> of a sequence processes sample \<open>k\<close> in the state the first \<open>k\<close> samples left.\<close>

lemma ticks_nth:
  "k < length xs \<Longrightarrow>
   ticks c s xs ! k =
     processVoiceActivity c (run c s (take k xs)) (fst (xs ! k)) (snd (xs ! k))"
proof (induction xs arbitrary: s k)
  case Nil
  then show ?case by simp
next
  case (Cons x xs)
  show ?case
  proof (cases k)
    case 0
    then show ?thesis by simp
  next
    case (Suc m)
    with Cons.prems have "m < length xs" by simp
    from Cons.IH [OF this] Suc show ?thesis by simp
  qed
qed

lemma run_take_Suc:
  assumes "k < length xs"
  shows "run c s (take (Suc k) xs) = fst (ticks c s xs ! k)"
proof -
  have "take (Suc k) xs = take k xs @ [xs ! k]"
    using assms by (simp add: take_Suc_conv_app_nth)
  then show ?thesis
    using assms by (simp add: run_append ticks_nth)
qed

lemma step_smoothed:
  "smoothedLevel (fst (processVoiceActivity c s l now)) =
     fadd (fmul (smoothedLevel s) (smoothing c)) (fmul l (fsub 1 (smoothing c)))"
  by (simp add: pva_defs split: prod.splits)

lemma above_step:
  "above c (processVoiceActivity c s l now) \<longleftrightarrow>
     threshold c < fadd (fmul (smoothedLevel s) (smoothing c)) (fmul l (fsub 1 (smoothing c)))"
  by (simp add: above_def step_smoothed)


subsection \<open>The silence timer\<close>

lemma step_cleared:
  "silenceStartTime s \<noteq> 0 \<Longrightarrow>
   silenceStartTime (fst (processVoiceActivity c s l now)) = 0 \<longrightarrow>
   fired VoiceStart (processVoiceActivity c s l now) \<or>
   fired VoiceEnd (processVoiceActivity c s l now)"
  by (simp add: pva_defs)

lemma step_kept:
  "isVoiceDetected s \<Longrightarrow> silenceStartTime s \<noteq> 0 \<Longrightarrow>
   \<not> fired VoiceEnd (processVoiceActivity c s l now) \<longrightarrow>
   silenceStartTime (fst (processVoiceActivity c s l now)) = silenceStartTime s \<and>
   isVoiceDetected (fst (processVoiceActivity c s l now))"
  by (simp add: pva_defs)

lemma step_inv:
  "isVoiceDetected s \<or> silenceStartTime s = 0 \<Longrightarrow>
   isVoiceDetected (fst (processVoiceActivity c s l now)) \<or>
   silenceStartTime (fst (processVoiceActivity c s l now)) = 0"
  by (cases "isVoiceDetected s") (simp_all add: pva_defs)

lemma run_inv:
  "isVoiceDetected s \<or> silenceStartTime s = 0 \<Longrightarrow>
   isVoiceDetected (run c s xs) \<or> silenceStartTime (run c s xs) = 0"
proof (induction xs arbitrary: s)
  case Nil
  then show ?case by simp
next
  case (Cons x xs)
  from step_inv [OF Cons.prems] have
    "isVoiceDetected (fst (processVoiceActivity c s (fst x) (snd x))) \<or>
     silenceStartTime (fst (processVoiceActivity c s (fst x) (snd x))) = 0" .
  from Cons.IH [OF this] show ?case by simp
qed

text \<open>When a tick ends the voice period, and where a running silence timer came from.\<close>

lemma step_end_fires:
  "fired VoiceEnd (processVoiceActivity c s l now) \<longrightarrow>
   isVoiceDetected s \<and>
   ((0 < silenceStartTime s \<and> maxSilence c \<le> real_of_int (now - silenceStartTime s)) \<or>
    (silenceStartTime s = 0 \<and>
     smoothedLevel (fst (processVoiceActivity c s l now)) \<le> threshold c \<and>
     0 < now \<and> maxSilence c \<le> 0))"
  by (cases "isVoiceDetected s") (simp_all add: pva_defs)

lemma step_timer_origin:
  "isVoiceDetected (fst (processVoiceActivity c s l now)) \<and>
   0 < silenceStartTime (fst (processVoiceActivity c s l now)) \<longrightarrow>
   isVoiceDetected s \<and>
   (silenceStartTime (fst (processVoiceActivity c s l now)) = silenceStartTime s \<or>
    (silenceStartTime s = 0 \<and>
     smoothedLevel (fst (processVoiceActivity c s l now)) \<le> threshold c \<and>
     silenceStartTime (fst (processVoiceActivity c s l now)) = now))"
  by (cases "isVoiceDetected s") (simp_all add: pva_defs)

lemma timer_origin:
  "j \<le> length xs \<Longrightarrow>
   isVoiceDetected (run c s (take j xs)) \<Longrightarrow> 0 < silenceStartTime (run c s (take j xs)) \<Longrightarrow>
   (isVoiceDetected s \<and> silenceStartTime (run c s (take j xs)) = silenceStartTime s) \<or>
   (\<exists>i<j. smoothedLevel (fst (ticks c s xs ! i)) \<le> threshold c \<and>
           silenceStartTime (run c s (take j xs)) = snd (xs ! i) \<and>
           (\<forall>m. i \<le> m \<and> m \<le> j \<longrightarrow> isVoiceDetected (run c s (take m xs))))"
proof (induction j)
  case 0
  then show ?case by simp
next
  case (Suc j)
  let ?pre = "run c s (take j xs)"
  let ?r = "processVoiceActivity c ?pre (fst (xs ! j)) (snd (xs ! j))"
  from Suc.prems have j: "j < length xs" by simp
  have post: "run c s (take (Suc j) xs) = fst ?r" "ticks c s xs ! j = ?r"
    using j by (simp_all add: run_take_Suc ticks_nth)
  from Suc.prems post have d: "isVoiceDetected (fst ?r)" "0 < silenceStartTime (fst ?r)"
    by simp_all
  from step_timer_origin [of c ?pre "fst (xs ! j)" "snd (xs ! j)"] d
  have pre: "isVoiceDetected ?pre"
    and alt: "silenceStartTime (fst ?r) = silenceStartTime ?pre \<or>
       (silenceStartTime ?pre = 0 \<and> smoothedLevel (fst ?r) \<le> threshold c \<and>
        silenceStartTime (fst ?r) = snd (xs ! j))"
    by simp_all
  from alt show ?case
  proof
    assume same: "silenceStartTime (fst ?r) = silenceStartTime ?pre"
    with d have "0 < silenceStartTime ?pre" by simp
    from Suc.IH [OF _ pre this] j
    have "(isVoiceDetected s \<and> silenceStartTime ?pre = silenceStartTime s) \<or>
      (\<exists>i<j. smoothedLevel (fst (ticks c s xs ! i)) \<le> threshold c \<and>
           silenceStartTime ?pre = snd (xs ! i) \<and>
           (\<forall>m. i \<le> m \<and> m \<le> j \<longrightarrow> isVoiceDetected (run c s (take m xs))))" by simp
    then show ?thesis
    proof
      assume "isVoiceDetected s \<and> silenceStartTime ?pre = silenceStartTime s"
      with same post show ?thesis by simp
    next
      assume "\<exists>i<j. smoothedLevel (fst (ticks c s xs ! i)) \<le> threshold c \<and>
           silenceStartTime ?pre = snd (xs ! i) \<and>
           (\<forall>m. i \<le> m \<and> m \<le> j \<longrightarrow> isVoiceDetected (run c s (take m xs)))"
      then obtain i where i: "i < j" "smoothedLevel (fst (ticks c s xs ! i)) \<le> threshold c"
        "silenceStartTime ?pre = snd (xs ! i)"
        and voiced: "\<forall>m. i \<le> m \<and> m \<le> j \<longrightarrow> isVoiceDetected (run c s (take m xs))"
        by blast
      have "\<forall>m. i \<le> m \<and> m \<le> Suc j \<longrightarrow> isVoiceDetected (run c s (take m xs))"
      proof (intro allI impI)
        fix m assume m: "i \<le> m \<and> m \<le> Suc j"
        show "isVoiceDetected (run c s (take m xs))"
        proof (cases "m = Suc j")
          case True
          with Suc.prems(2) show ?thesis by simp
        next
          case False
          with m have "i \<le> m \<and> m \<le> j" by simp
          with voiced show ?thesis by blast
        qed
      qed
      with i same post
      have "i < Suc j \<and> smoothedLevel (fst (ticks c s xs ! i)) \<le> threshold c \<and>
           silenceStartTime (run c s (take (Suc j) xs)) = snd (xs ! i) \<and>
           (\<forall>m. i \<le> m \<and> m \<le> Suc j \<longrightarrow> isVoiceDetected (run c s (take m xs)))"
        by simp
      then show ?thesis by blast
    qed
  next
    assume new: "silenceStartTime ?pre = 0 \<and> smoothedLevel (fst ?r) \<le> threshold c \<and>
        silenceStartTime (fst ?r) = snd (xs ! j)"
    have "\<forall>m. j \<le> m \<and> m \<le> Suc j \<longrightarrow> isVoiceDetected (run c s (take m xs))"
    proof (intro allI impI)
      fix m assume m: "j \<le> m \<and> m \<le> Suc j"
      then have "m = j \<or> m = Suc j" by arith
      with pre Suc.prems(2) show "isVoiceDetected (run c s (take m xs))" by auto
    qed
    with new post
    have "j < Suc j \<and> smoothedLevel (fst (ticks c s xs ! j)) \<le> threshold c \<and>
           silenceStartTime (run c s (take (Suc j) xs)) = snd (xs ! j) \<and>
           (\<forall>m. j \<le> m \<and> m \<le> Suc j \<longrightarrow> isVoiceDetected (run c s (take m xs)))"
      by simp
    then show ?thesis by blast
  qed
qed

text \<open>While voice is detected the start candidate is carried along and not read.\<close>

lemma step_ignores_candidate:
  "isVoiceDetected s \<Longrightarrow>
   events (snd (processVoiceActivity c (s\<lparr>voiceStartTime := v\<rparr>) l now)) =
     events (snd (processVoiceActivity c s l now)) \<and>
   isVoiceDetected (fst (processVoiceActivity c (s\<lparr>voiceStartTime := v\<rparr>) l now)) =
     isVoiceDetected (fst (processVoiceActivity c s l now)) \<and>
   silenceStartTime (fst (processVoiceActivity c (s\<lparr>voiceStartTime := v\<rparr>) l now)) =
     silenceStartTime (fst (processVoiceActivity c s l now)) \<and>
   smoothedLevel (fst (processVoiceActivity c (s\<lparr>voiceStartTime := v\<rparr>) l now)) =
     smoothedLevel (fst (processVoiceActivity c s l now))"
  by (simp add: pva_defs)

subsection \<open>The start candidate\<close>

lemma step_first_crossing:
  "\<not> isVoiceDetected s \<Longrightarrow> voiceStartTime s = 0 \<Longrightarrow>
   above c (processVoiceActivity c s l now) \<Longrightarrow>
   \<not> fired VoiceStart (processVoiceActivity c s l now) \<and>
   \<not> isVoiceDetected (fst (processVoiceActivity c s l now)) \<and>
   voiceStartTime (fst (processVoiceActivity c s l now)) = now"
  unfolding above_step by (simp add: pva_defs)



lemma step_below:
  "\<not> isVoiceDetected s \<Longrightarrow> \<not> above c (processVoiceActivity c s l now) \<Longrightarrow>
   voiceStartTime (fst (processVoiceActivity c s l now)) = 0 \<and>
   \<not> isVoiceDetected (fst (processVoiceActivity c s l now)) \<and>
   events (snd (processVoiceActivity c s l now)) =
     [VoiceLevel l
        (fadd (fmul (smoothedLevel s) (smoothing c)) (fmul l (fsub 1 (smoothing c)))) now]"
  unfolding above_step by (simp add: pva_defs)






subsection \<open>The smoothed level\<close>



section \<open>The end of a voice period\<close>

text \<open>
  The silence countdown is not restarted by speech. In \<open>interrupted_silence\<close> the voice
  period starts at 1100 and one silent sample at 1150 starts the timer; the samples at 1250
  and 1350 are above the threshold again, and the tick at 1350 still ends the voice
  period: the sample 100 ms earlier, well inside the trailing 200 ms, was above the
  threshold, and so is the sample of the ending tick itself.
\<close>

theorem voiceEnd_despite_voice_in_window:
  "fired VoiceEnd (ticks scenario_config initial_detector interrupted_silence ! 5) \<and>
   above scenario_config (ticks scenario_config initial_detector interrupted_silence ! 4) \<and>
   above scenario_config (ticks scenario_config initial_detector interrupted_silence ! 5) \<and>
   real_of_int (snd (interrupted_silence ! 5) - snd (interrupted_silence ! 4)) <
     maxSilence scenario_config"
  by (simp add: scenario_defs above_def)

text \<open>
  Claim C1, as the code has it: in a sequence of ticks that starts with no silence timer
  running, a tick \<open>j\<close> fires \<open>voiceEnd\<close> only if there is a tick \<open>i \<le> j\<close> whose
  smoothed level was at or below the threshold, with voice detected before every tick
  from \<open>i\<close> to \<open>j\<close>, and with at least \<open>maxSilence\<close> between the clock readings of
  ticks \<open>i\<close> and \<open>j\<close>. Nothing is required of the levels of the samples after \<open>i\<close>:
  they may be above the threshold.
\<close>

theorem voiceEnd_after_silence_countdown:
  assumes "silenceStartTime s = 0" and "j < length xs"
    and "fired VoiceEnd (ticks c s xs ! j)"
  shows "\<exists>i\<le>j. smoothedLevel (fst (ticks c s xs ! i)) \<le> threshold c \<and>
           (\<forall>m. i \<le> m \<and> m \<le> j \<longrightarrow> isVoiceDetected (run c s (take m xs))) \<and>
           maxSilence c \<le> real_of_int (snd (xs ! j) - snd (xs ! i))"
proof -
  let ?pre = "run c s (take j xs)"
  let ?r = "processVoiceActivity c ?pre (fst (xs ! j)) (snd (xs ! j))"
  have tick: "ticks c s xs ! j = ?r"
    using assms(2) by (simp add: ticks_nth)
  with assms(3) have f: "fired VoiceEnd ?r" by simp
  from step_end_fires [of c ?pre "fst (xs ! j)" "snd (xs ! j)"] f
  have pre: "isVoiceDetected ?pre"
    and alt: "(0 < silenceStartTime ?pre \<and>
        maxSilence c \<le> real_of_int (snd (xs ! j) - silenceStartTime ?pre)) \<or>
       (silenceStartTime ?pre = 0 \<and> smoothedLevel (fst ?r) \<le> threshold c \<and>
        0 < snd (xs ! j) \<and> maxSilence c \<le> 0)"
    by simp_all
  from alt show ?thesis
  proof
    assume running: "0 < silenceStartTime ?pre \<and>
        maxSilence c \<le> real_of_int (snd (xs ! j) - silenceStartTime ?pre)"
    with timer_origin [of j xs c s] pre assms(1,2)
    obtain i where "i < j" "smoothedLevel (fst (ticks c s xs ! i)) \<le> threshold c"
      "silenceStartTime ?pre = snd (xs ! i)"
      "\<forall>m. i \<le> m \<and> m \<le> j \<longrightarrow> isVoiceDetected (run c s (take m xs))"
      by auto
    with running
    have "i \<le> j \<and> smoothedLevel (fst (ticks c s xs ! i)) \<le> threshold c \<and>
           (\<forall>m. i \<le> m \<and> m \<le> j \<longrightarrow> isVoiceDetected (run c s (take m xs))) \<and>
           maxSilence c \<le> real_of_int (snd (xs ! j) - snd (xs ! i))" by simp
    then show ?thesis by blast
  next
    assume "silenceStartTime ?pre = 0 \<and> smoothedLevel (fst ?r) \<le> threshold c \<and>
        0 < snd (xs ! j) \<and> maxSilence c \<le> 0"
    with pre tick
    have "j \<le> j \<and> smoothedLevel (fst (ticks c s xs ! j)) \<le> threshold c \<and>
           (\<forall>m. j \<le> m \<and> m \<le> j \<longrightarrow> isVoiceDetected (run c s (take m xs))) \<and>
           maxSilence c \<le> real_of_int (snd (xs ! j) - snd (xs ! j))" by auto
    then show ?thesis by blast
  qed
qed

text \<open>
  The same sequence as an instance: its last tick ends the voice period, so a tick
  with a level at or below the threshold lies at least 200 ms before it.
\<close>

theorem voiceEnd_after_silence_countdown_witness:
  "silenceStartTime initial_detector = 0 \<and> 5 < length interrupted_silence \<and>
   fired VoiceEnd (ticks scenario_config initial_detector interrupted_silence ! 5) \<and>
   (\<exists>i\<le>5.
      smoothedLevel (fst (ticks scenario_config initial_detector interrupted_silence ! i)) \<le>
        threshold scenario_config \<and>
      (\<forall>m. i \<le> m \<and> m \<le> 5 \<longrightarrow>
         isVoiceDetected (run scenario_config initial_detector (take m interrupted_silence))) \<and>
      maxSilence scenario_config \<le>
        real_of_int (snd (interrupted_silence ! 5) - snd (interrupted_silence ! i)))"
proof -
  have h1: "silenceStartTime initial_detector = 0"
    by (simp add: initial_detector_def)
  have h2: "5 < length interrupted_silence"
    by (simp add: interrupted_silence_def)
  have h3: "fired VoiceEnd (ticks scenario_config initial_detector interrupted_silence ! 5)"
    by (simp add: scenario_defs)
  from voiceEnd_after_silence_countdown [OF h1 h2 h3] h1 h2 h3 show ?thesis by blast
qed

text \<open>
  Claim C2: in every sequence of processed samples, a tick that finds the silence timer
  set leaves it cleared only if that tick fires \<open>voiceStart\<close> or \<open>voiceEnd\<close>; and
  while voice is detected, a tick that does not fire \<open>voiceEnd\<close> leaves the timer at
  its value and the voice detected, whatever the level of its sample.
\<close>

theorem silence_timer_cleared_only_by_transition:
  assumes "k < length xs" and "silenceStartTime (run c s (take k xs)) \<noteq> 0"
  shows "(silenceStartTime (fst (ticks c s xs ! k)) = 0 \<longrightarrow>
            fired VoiceStart (ticks c s xs ! k) \<or> fired VoiceEnd (ticks c s xs ! k)) \<and>
         (isVoiceDetected (run c s (take k xs)) \<and> \<not> fired VoiceEnd (ticks c s xs ! k) \<longrightarrow>
            silenceStartTime (fst (ticks c s xs ! k)) =
              silenceStartTime (run c s (take k xs)) \<and>
            isVoiceDetected (fst (ticks c s xs ! k)))"
  using assms step_cleared [of "run c s (take k xs)" c "fst (xs ! k)" "snd (xs ! k)"]
    step_kept [of "run c s (take k xs)" c "fst (xs ! k)" "snd (xs ! k)"]
  by (simp add: ticks_nth)

text \<open>
  In \<open>interrupted_silence\<close> the timer runs since 1150 when the sample of tick 4 comes in
  above the threshold: the tick fires nothing but its level event and the timer stays.
\<close>

theorem silence_timer_cleared_only_by_transition_witness:
  "4 < length interrupted_silence \<and>
   silenceStartTime (run scenario_config initial_detector (take 4 interrupted_silence)) = 1150 \<and>
   isVoiceDetected (run scenario_config initial_detector (take 4 interrupted_silence)) \<and>
   above scenario_config (ticks scenario_config initial_detector interrupted_silence ! 4) \<and>
   \<not> fired VoiceEnd (ticks scenario_config initial_detector interrupted_silence ! 4) \<and>
   silenceStartTime (fst (ticks scenario_config initial_detector interrupted_silence ! 4)) = 1150 \<and>
   isVoiceDetected (fst (ticks scenario_config initial_detector interrupted_silence ! 4))"
proof -
  have h1: "4 < length interrupted_silence"
    by (simp add: interrupted_silence_def)
  have pre: "silenceStartTime (run scenario_config initial_detector
               (take 4 interrupted_silence)) = 1150"
    "isVoiceDetected (run scenario_config initial_detector (take 4 interrupted_silence))"
    by (simp_all add: scenario_defs)
  then have h2: "silenceStartTime (run scenario_config initial_detector
               (take 4 interrupted_silence)) \<noteq> 0"
    by simp
  have tick: "above scenario_config (ticks scenario_config initial_detector interrupted_silence ! 4)"
    "\<not> fired VoiceEnd (ticks scenario_config initial_detector interrupted_silence ! 4)"
    by (simp_all add: scenario_defs above_def)
  from silence_timer_cleared_only_by_transition [OF h1 h2] h1 pre tick show ?thesis
    by simp
qed

section \<open>The start of a voice period\<close>




section \<open>The two timers\<close>

text \<open>
  \<open>voiceStartTime\<close> is not cleared when \<open>voiceStart\<close> fires. After speech from 1000
  and a first silent sample at 1150, \<open>voiceStartTime\<close> still holds 1000 while
  \<open>silenceStartTime\<close> holds 1150: both fields are set.
\<close>

theorem both_timers_set_during_silence:
  "voiceStartTime (run scenario_config (resetVADState initial_detector)
     [(0.5, 1000), (0.5, 1050), (0.5, 1100), (0, 1150)]) = 1000 \<and>
   silenceStartTime (run scenario_config (resetVADState initial_detector)
     [(0.5, 1000), (0.5, 1050), (0.5, 1100), (0, 1150)]) = 1150"
  by (simp add: scenario_defs)

text \<open>
  Claim C4, as the code has it: in every state reached from a reset detector by any
  sequence of processed samples, the silence timer is set only while voice is detected,
  so without voice at most the start candidate is set. During a voice period
  \<open>voiceStartTime\<close> keeps the reading of the crossing that led to it and the silence
  timer may be set beside it; but the value of \<open>voiceStartTime\<close> then has no influence
  on the events, the voice verdict, the silence timer or the smoothed level of a tick.
\<close>

theorem silence_timer_only_while_voice:
  "(isVoiceDetected (run c (resetVADState d) xs) \<or>
    silenceStartTime (run c (resetVADState d) xs) = 0) \<and>
   (isVoiceDetected s \<longrightarrow>
      events (snd (processVoiceActivity c (s\<lparr>voiceStartTime := v\<rparr>) l now)) =
        events (snd (processVoiceActivity c s l now)) \<and>
      isVoiceDetected (fst (processVoiceActivity c (s\<lparr>voiceStartTime := v\<rparr>) l now)) =
        isVoiceDetected (fst (processVoiceActivity c s l now)) \<and>
      silenceStartTime (fst (processVoiceActivity c (s\<lparr>voiceStartTime := v\<rparr>) l now)) =
        silenceStartTime (fst (processVoiceActivity c s l now)) \<and>
      smoothedLevel (fst (processVoiceActivity c (s\<lparr>voiceStartTime := v\<rparr>) l now)) =
        smoothedLevel (fst (processVoiceActivity c s l now)))"
proof (intro conjI impI)
  show "isVoiceDetected (run c (resetVADState d) xs) \<or>
    silenceStartTime (run c (resetVADState d) xs) = 0"
    by (rule run_inv) (simp add: resetVADState_def)
next
  assume v: "isVoiceDetected s"
  from step_ignores_candidate [OF v]
  show "events (snd (processVoiceActivity c (s\<lparr>voiceStartTime := v\<rparr>) l now)) =
        events (snd (processVoiceActivity c s l now))"
    and "isVoiceDetected (fst (processVoiceActivity c (s\<lparr>voiceStartTime := v\<rparr>) l now)) =
        isVoiceDetected (fst (processVoiceActivity c s l now))"
    and "silenceStartTime (fst (processVoiceActivity c (s\<lparr>voiceStartTime := v\<rparr>) l now)) =
        silenceStartTime (fst (processVoiceActivity c s l now))"
    and "smoothedLevel (fst (processVoiceActivity c (s\<lparr>voiceStartTime := v\<rparr>) l now)) =
        smoothedLevel (fst (processVoiceActivity c s l now))"
    by simp_all
qed

text \<open>
  Instances: before the voice period no silence timer, in it both fields set; and a
  silent tick of the speaking detector with its candidate of 1000 replaced by 0.
\<close>

theorem silence_timer_only_while_voice_witness:
  "\<not> isVoiceDetected (run scenario_config (resetVADState initial_detector)
       [(0.5, 1000), (0.5, 1050)]) \<and>
   silenceStartTime (run scenario_config (resetVADState initial_detector)
       [(0.5, 1000), (0.5, 1050)]) = 0 \<and>
   isVoiceDetected (run scenario_config (resetVADState initial_detector)
       [(0.5, 1000), (0.5, 1050), (0.5, 1100), (0, 1150)]) \<and>
   isVoiceDetected speaking_detector \<and>
   events (snd (processVoiceActivity scenario_config
      (speaking_detector\<lparr>voiceStartTime := 0\<rparr>) 0 1150)) =
   events (snd (processVoiceActivity scenario_config speaking_detector 0 1150))"
  using silence_timer_only_while_voice
          [of scenario_config initial_detector "[(0.5, 1000), (0.5, 1050)]"
              speaking_detector 0 0 1150]
        silence_timer_only_while_voice
          [of scenario_config initial_detector
              "[(0.5, 1000), (0.5, 1050), (0.5, 1100), (0, 1150)]" speaking_detector 0 0 1150]
  by (simp add: scenario_defs speaking_detector_def)

section \<open>The life of a detector\<close>

text \<open>
  An active detector is connected, and a detector with voice detected is active: both
  hold of the constructor's state and are kept by every operation.
\<close>

lemma step_frame:
  "isActive (fst (processVoiceActivity c s l now)) = isActive s \<and>
   isConnected (fst (processVoiceActivity c s l now)) = isConnected s"
  by (simp add: pva_defs)

lemma step_from_reset:
  "\<not> isVoiceDetected s \<Longrightarrow> voiceStartTime s = 0 \<Longrightarrow>
   \<not> isVoiceDetected (fst (processVoiceActivity c s l now))"
  by (simp add: pva_defs)

lemma analyze_state:
  "fst (analyze c s freq now fid) =
     (if \<not> isActive s then s
      else (fst (processVoiceActivity c s (frameLevel c freq) now))
             \<lparr>animationFrame := Some fid\<rparr>)"
  by (simp add: analyze_def frameLevel_def Let_def case_prod_unfold)

lemma analyze_frame:
  "isActive (fst (analyze c s freq now fid)) = isActive s \<and>
   isConnected (fst (analyze c s freq now fid)) = isConnected s"
  by (simp add: analyze_state step_frame)

lemma analyze_from_reset:
  "\<not> isVoiceDetected s \<Longrightarrow> voiceStartTime s = 0 \<Longrightarrow>
   \<not> isVoiceDetected (fst (analyze c s freq now fid))"
  by (simp add: analyze_state step_from_reset)

lemma start_state:
  "fst (snd (start c s freq now fid)) =
     (if \<not> isConnected s \<or> isActive s then s
      else fst (analyze c ((resetVADState s)\<lparr>isActive := True\<rparr>) freq now fid))"
  by (simp add: start_def startAnalysis_def Let_def case_prod_unfold)

lemma stop_state:
  "\<not> isActive (fst (snd (stop s))) \<and> isConnected (fst (snd (stop s))) = isConnected s \<and>
   (isActive s \<longrightarrow> \<not> isVoiceDetected (fst (snd (stop s)))) \<and>
   (\<not> isActive s \<longrightarrow> fst (snd (stop s)) = s)"
  by (simp add: stop_def trigger_def Let_def split: option.splits)

lemma apply_op_wellformed:
  assumes "wellformed s"
  shows "wellformed (apply_op s x)"
proof -
  obtain c o' where x: "x = (c, o')" by (cases x)
  show ?thesis
  proof (cases o')
    case (Connect granted)
    with x assms show ?thesis by (simp add: connect_def wellformed_def)
  next
    case (Start freq now fid)
    let ?s0 = "(resetVADState s)\<lparr>isActive := True\<rparr>"
    have r: "\<not> isVoiceDetected ?s0" "voiceStartTime ?s0 = 0" "isActive ?s0"
      "isConnected ?s0 = isConnected s"
      by (simp_all add: resetVADState_def)
    from analyze_from_reset [OF r(1,2)] analyze_frame [of c ?s0 freq now fid] r(3,4)
    have "isConnected s \<Longrightarrow> wellformed (fst (analyze c ?s0 freq now fid))"
      by (simp add: wellformed_def)
    with x Start assms show ?thesis by (simp add: start_state)
  next
    case Stop
    from stop_state [of s] assms have "wellformed (fst (snd (stop s)))"
      by (cases "isActive s") (simp_all add: wellformed_def)
    with x Stop show ?thesis by simp
  next
    case Disconnect
    from stop_state [of s] assms
    have "wellformed ((fst (snd (stop s)))\<lparr>isConnected := False\<rparr>)"
      by (cases "isActive s") (simp_all add: wellformed_def)
    with x Disconnect show ?thesis by (simp add: disconnect_def case_prod_unfold Let_def)
  next
    case (Frame freq now fid)
    show ?thesis
    proof (cases "isActive s")
      case True
      with analyze_frame [of c s freq now fid] assms x Frame show ?thesis
        by (simp add: wellformed_def)
    next
      case False
      then have "fst (analyze c s freq now fid) = s" by (simp add: analyze_def)
      with assms x Frame show ?thesis by simp
    qed
  qed
qed

lemma foldl_wellformed: "wellformed s \<Longrightarrow> wellformed (foldl apply_op s ops)"
  by (induction ops arbitrary: s) (simp_all add: apply_op_wellformed)

lemma lifecycle_inv: "wellformed (lifecycle ops)"
  unfolding lifecycle_def
  by (rule foldl_wellformed) (simp add: wellformed_def initial_detector_def)

section \<open>stop\<close>

text \<open>
  \<open>stop\<close> sets \<open>isActive\<close> to false in its first statement and triggers
  \<open>voiceEnd\<close> in its last: the listeners of that event already see an inactive
  detector.
\<close>

theorem voiceEnd_of_stop_sees_inactive:
  "map isActive (snapshots VoiceEnd (snd (snd (stop speaking_detector)))) = [False]"
  by (simp add: stop_def speaking_detector_def trigger_def Let_def)

text \<open>
  Claim C5, as the code has it: \<open>stop\<close> called on an active detector with voice
  detected returns success and triggers exactly one event, \<open>voiceEnd\<close>, inside the call
  and after both \<open>isActive\<close> and \<open>isVoiceDetected\<close> have been set to false: the
  listeners see the detector as \<open>stop\<close> leaves it, neither active nor with voice
  detected. Called on an inactive detector, \<open>stop\<close> returns success, changes nothing
  and triggers nothing; so does a second \<open>stop\<close> after any first one. A detector
  that went through any sequence of \<open>connect\<close>, \<open>start\<close>, \<open>stop\<close>,
  \<open>disconnect\<close> and analysis frames is active whenever it has voice detected, so on
  it \<open>stop\<close> with voice detected always is the first case.
\<close>

theorem stop_contract:
  "(isActive s \<and> isVoiceDetected s \<longrightarrow>
      fst (stop s) = True \<and>
      events (snd (snd (stop s))) = [VoiceEnd] \<and>
      snapshots VoiceEnd (snd (snd (stop s))) = [fst (snd (stop s))] \<and>
      \<not> isActive (fst (snd (stop s))) \<and> \<not> isVoiceDetected (fst (snd (stop s)))) \<and>
   (\<not> isActive s \<longrightarrow> stop s = (True, s, [])) \<and>
   stop (fst (snd (stop s))) = (True, fst (snd (stop s)), []) \<and>
   (isVoiceDetected (lifecycle ops) \<longrightarrow>
      events (snd (snd (stop (lifecycle ops)))) = [VoiceEnd] \<and>
      snapshots VoiceEnd (snd (snd (stop (lifecycle ops)))) =
        [fst (snd (stop (lifecycle ops)))] \<and>
      \<not> isActive (fst (snd (stop (lifecycle ops)))) \<and>
      \<not> isVoiceDetected (fst (snd (stop (lifecycle ops)))))"
proof -
  have general: "(isActive s \<and> isVoiceDetected s \<longrightarrow>
      fst (stop s) = True \<and>
      events (snd (snd (stop s))) = [VoiceEnd] \<and>
      snapshots VoiceEnd (snd (snd (stop s))) = [fst (snd (stop s))] \<and>
      \<not> isActive (fst (snd (stop s))) \<and> \<not> isVoiceDetected (fst (snd (stop s)))) \<and>
   (\<not> isActive s \<longrightarrow> stop s = (True, s, [])) \<and>
   stop (fst (snd (stop s))) = (True, fst (snd (stop s)), [])" for s
    by (simp add: stop_def trigger_def Let_def split: option.splits)
  from lifecycle_inv [of ops]
  have "isVoiceDetected (lifecycle ops) \<longrightarrow> isActive (lifecycle ops)"
    by (simp add: wellformed_def)
  with general [of s] general [of "lifecycle ops"] show ?thesis by blast
qed

text \<open>Stopping the speaking detector, and stopping the never started one.\<close>

theorem stop_contract_witness:
  "isActive speaking_detector \<and> isVoiceDetected speaking_detector \<and>
   events (snd (snd (stop speaking_detector))) = [VoiceEnd] \<and>
   snd (snd (stop speaking_detector)) =
     [CancelFrame 7,
      Trigger VoiceEnd (speaking_detector\<lparr>isActive := False, animationFrame := None,
                                           isVoiceDetected := False\<rparr>)] \<and>
   \<not> isActive initial_detector \<and>
   stop initial_detector = (True, initial_detector, [])"
  using stop_contract [of speaking_detector "[]"] stop_contract [of initial_detector "[]"]
  by (simp add: stop_def speaking_detector_def initial_detector_def trigger_def Let_def)

section \<open>The smoothed level\<close>




section \<open>The debounce of the start\<close>

text \<open>
  Claim C7: while no voice is detected, a tick with a smoothed level at or below the
  threshold clears the start candidate and fires nothing but its level event; if the
  next tick is above the threshold, at a clock reading other than 0, it starts a new
  candidate at its own reading and fires no \<open>voiceStart\<close>. In the scenario
  configuration, for every \<open>t \<ge> 0\<close> (the claim's own readings are \<open>t = 0\<close>): level
  0.5 at \<open>t\<close>, 0 at \<open>t + 50\<close>, 0.5 at \<open>t + 60\<close>, \<open>t + 100\<close> and \<open>t + 160\<close>
  fires \<open>voiceStart\<close> at \<open>t + 160\<close> and not at \<open>t + 100\<close>.
\<close>

theorem below_threshold_restarts_debounce:
  "(\<not> isVoiceDetected s \<and> \<not> above c (processVoiceActivity c s l now) \<longrightarrow>
      voiceStartTime (fst (processVoiceActivity c s l now)) = 0 \<and>
      \<not> isVoiceDetected (fst (processVoiceActivity c s l now)) \<and>
      events (snd (processVoiceActivity c s l now)) =
        [VoiceLevel l
           (fl (fl (smoothedLevel s * smoothing c) + fl (l * fl (1 - smoothing c)))) now]) \<and>
   (\<not> isVoiceDetected s \<and> \<not> above c (ticks c s [(l, now), (l', now')] ! 0) \<and>
    above c (ticks c s [(l, now), (l', now')] ! 1) \<and> now' \<noteq> 0 \<longrightarrow>
      \<not> fired VoiceStart (ticks c s [(l, now), (l', now')] ! 0) \<and>
      \<not> fired VoiceStart (ticks c s [(l, now), (l', now')] ! 1) \<and>
      \<not> isVoiceDetected (run c s [(l, now), (l', now')]) \<and>
      voiceStartTime (run c s [(l, now), (l', now')]) = now') \<and>
   (0 \<le> t \<longrightarrow>
      map (\<lambda>r. events (snd r)) (ticks scenario_config (resetVADState d)
        [(0.5, t), (0, t + 50), (0.5, t + 60), (0.5, t + 100), (0.5, t + 160)]) =
      [[VoiceLevel 0.5 0.5 t], [VoiceLevel 0 0 (t + 50)], [VoiceLevel 0.5 0.5 (t + 60)],
       [VoiceLevel 0.5 0.5 (t + 100)], [VoiceLevel 0.5 0.5 (t + 160), VoiceStart]])"
proof (intro conjI impI)
  assume "\<not> isVoiceDetected s \<and> \<not> above c (processVoiceActivity c s l now)"
  then have h: "\<not> isVoiceDetected s" "\<not> above c (processVoiceActivity c s l now)"
    by simp_all
  from step_below [OF h]
  show "voiceStartTime (fst (processVoiceActivity c s l now)) = 0"
    and "\<not> isVoiceDetected (fst (processVoiceActivity c s l now))"
    and "events (snd (processVoiceActivity c s l now)) =
        [VoiceLevel l
           (fl (fl (smoothedLevel s * smoothing c) + fl (l * fl (1 - smoothing c)))) now]"
    by (simp_all add: double_defs)
next
  let ?r = "processVoiceActivity c s l now"
  let ?r' = "processVoiceActivity c (fst ?r) l' now'"
  assume "\<not> isVoiceDetected s \<and> \<not> above c (ticks c s [(l, now), (l', now')] ! 0) \<and>
    above c (ticks c s [(l, now), (l', now')] ! 1) \<and> now' \<noteq> 0"
  then have h: "\<not> isVoiceDetected s" "\<not> above c ?r" "above c ?r'" "now' \<noteq> 0"
    by simp_all
  note first = step_below [OF h(1,2)]
  from first have "\<not> isVoiceDetected (fst ?r)" "voiceStartTime (fst ?r) = 0"
    by simp_all
  note second = step_first_crossing [OF this h(3)]
  from first show "\<not> fired VoiceStart (ticks c s [(l, now), (l', now')] ! 0)"
    by (simp add: fired_def)
  from second show "\<not> fired VoiceStart (ticks c s [(l, now), (l', now')] ! 1)"
    and "\<not> isVoiceDetected (run c s [(l, now), (l', now')])"
    and "voiceStartTime (run c s [(l, now), (l', now')]) = now'"
    by simp_all
next
  assume "0 \<le> t"
  then show "map (\<lambda>r. events (snd r)) (ticks scenario_config (resetVADState d)
        [(0.5, t), (0, t + 50), (0.5, t + 60), (0.5, t + 100), (0.5, t + 160)]) =
      [[VoiceLevel 0.5 0.5 t], [VoiceLevel 0 0 (t + 50)], [VoiceLevel 0.5 0.5 (t + 60)],
       [VoiceLevel 0.5 0.5 (t + 100)], [VoiceLevel 0.5 0.5 (t + 160), VoiceStart]]"
    by (simp add: scenario_defs)
qed

text \<open>
  A candidate of 1000 cleared by a silent tick at 1050 and a new one started at 1060;
  and the scenario at the readings 0, 50, 60, 100 and 160.
\<close>

theorem below_threshold_restarts_debounce_witness:
  "voiceStartTime (run scenario_config initial_detector [(0.5, 1000), (0, 1050)]) = 0 \<and>
   voiceStartTime (run scenario_config initial_detector
      [(0.5, 1000), (0, 1050), (0.5, 1060)]) = 1060 \<and>
   map (\<lambda>r. events (snd r)) (ticks scenario_config (resetVADState initial_detector)
     [(0.5, 0), (0, 50), (0.5, 60), (0.5, 100), (0.5, 160)]) =
   [[VoiceLevel 0.5 0.5 0], [VoiceLevel 0 0 50], [VoiceLevel 0.5 0.5 60],
    [VoiceLevel 0.5 0.5 100], [VoiceLevel 0.5 0.5 160, VoiceStart]]"
proof -
  let ?s = "run scenario_config initial_detector [(0.5, 1000)]"
  have pre: "\<not> isVoiceDetected ?s" "voiceStartTime ?s = 1000"
    by (simp_all add: scenario_defs)
  have h: "\<not> above scenario_config (processVoiceActivity scenario_config ?s 0 1050)"
    "\<not> above scenario_config (ticks scenario_config ?s [(0, 1050), (0.5, 1060)] ! 0)"
    "above scenario_config (ticks scenario_config ?s [(0, 1050), (0.5, 1060)] ! 1)"
    by (simp_all add: scenario_defs above_def)
  from pre h below_threshold_restarts_debounce
               [of ?s scenario_config 0 1050 "0.5" 1060 0 initial_detector]
  show ?thesis by simp
qed

section \<open>start\<close>

lemma reset_erases:
  "resetVADState (s\<lparr>isVoiceDetected := v, lastVoiceTime := a, voiceStartTime := b,
       silenceStartTime := d, currentLevel := e, smoothedLevel := f\<rparr>) = resetVADState s"
  by (simp add: resetVADState_def)

text \<open>
  Claim C8: \<open>start\<close> returns failure and does nothing when no source is connected. On
  a connected, active detector (and every active detector that went through a sequence
  of \<open>connect\<close>, \<open>start\<close>, \<open>stop\<close>, \<open>disconnect\<close> and analysis frames is connected)
  it returns success and does nothing: the state, with \<open>isVoiceDetected\<close> and the
  timers, is left as it is, and no frame is requested. On a
  connected, inactive detector it returns success, resets the voice verdict, the
  timers and the levels, activates the detector and runs the first analysis tick on that
  reset state: the result does not depend on the old levels, timers or voice verdict, no
  voice is detected, no silence timer runs, the start candidate is unset or started by
  this first tick, one level event is triggered and one frame is requested.
\<close>

theorem start_contract:
  "(\<not> isConnected s \<longrightarrow> start c s freq now fid = (False, s, [])) \<and>
   (isConnected s \<and> isActive s \<longrightarrow> start c s freq now fid = (True, s, [])) \<and>
   (isConnected s \<and> \<not> isActive s \<and> freq \<noteq> [] \<longrightarrow>
      start c s freq now fid =
        (True, analyze c ((resetVADState s)\<lparr>isActive := True\<rparr>) freq now fid) \<and>
      \<not> isVoiceDetected (resetVADState s) \<and> lastVoiceTime (resetVADState s) = 0 \<and>
      voiceStartTime (resetVADState s) = 0 \<and> silenceStartTime (resetVADState s) = 0 \<and>
      currentLevel (resetVADState s) = 0 \<and> smoothedLevel (resetVADState s) = 0 \<and>
      fst (start c s freq now fid) = True \<and>
      isActive (fst (snd (start c s freq now fid))) \<and>
      \<not> isVoiceDetected (fst (snd (start c s freq now fid))) \<and>
      silenceStartTime (fst (snd (start c s freq now fid))) = 0 \<and>
      voiceStartTime (fst (snd (start c s freq now fid))) \<in> {0, now} \<and>
      smoothedLevel (fst (snd (start c s freq now fid))) =
        fl (fl (frameLevel c freq * fl (1 - smoothing c))) \<and>
      animationFrame (fst (snd (start c s freq now fid))) = Some fid \<and>
      events (snd (snd (start c s freq now fid))) =
        [VoiceLevel (frameLevel c freq)
           (fl (fl (frameLevel c freq * fl (1 - smoothing c)))) now] \<and>
      count_list (snd (snd (start c s freq now fid))) RequestFrame = 1 \<and>
      start c (s\<lparr>isVoiceDetected := v, lastVoiceTime := a, voiceStartTime := b,
                 silenceStartTime := d, currentLevel := e, smoothedLevel := f\<rparr>) freq now fid =
        start c s freq now fid) \<and>
   (isActive (lifecycle ops) \<longrightarrow>
      start c (lifecycle ops) freq now fid = (True, lifecycle ops, []))"
proof -
  from lifecycle_inv [of ops]
  have "isActive (lifecycle ops) \<longrightarrow>
      start c (lifecycle ops) freq now fid = (True, lifecycle ops, [])"
    by (simp add: wellformed_def start_def)
  moreover
  have "start c s freq now fid =
        (if \<not> isConnected s then (False, s, [])
         else if isActive s then (True, s, [])
         else (True, analyze c ((resetVADState s)\<lparr>isActive := True\<rparr>) freq now fid))"
    by (simp add: start_def startAnalysis_def Let_def split: prod.splits)
  moreover have "\<not> isVoiceDetected (resetVADState s) \<and> lastVoiceTime (resetVADState s) = 0 \<and>
      voiceStartTime (resetVADState s) = 0 \<and> silenceStartTime (resetVADState s) = 0 \<and>
      currentLevel (resetVADState s) = 0 \<and> smoothedLevel (resetVADState s) = 0"
    by (simp add: resetVADState_def)
  moreover have "(isConnected s \<and> \<not> isActive s \<and> freq \<noteq> [] \<longrightarrow>
      fst (start c s freq now fid) = True \<and>
      isActive (fst (snd (start c s freq now fid))) \<and>
      \<not> isVoiceDetected (fst (snd (start c s freq now fid))) \<and>
      silenceStartTime (fst (snd (start c s freq now fid))) = 0 \<and>
      voiceStartTime (fst (snd (start c s freq now fid))) \<in> {0, now} \<and>
      smoothedLevel (fst (snd (start c s freq now fid))) =
        fl (fl (frameLevel c freq * fl (1 - smoothing c))) \<and>
      animationFrame (fst (snd (start c s freq now fid))) = Some fid \<and>
      events (snd (snd (start c s freq now fid))) =
        [VoiceLevel (frameLevel c freq)
           (fl (fl (frameLevel c freq * fl (1 - smoothing c)))) now] \<and>
      count_list (snd (snd (start c s freq now fid))) RequestFrame = 1 \<and>
      start c (s\<lparr>isVoiceDetected := v, lastVoiceTime := a, voiceStartTime := b,
                 silenceStartTime := d, currentLevel := e, smoothedLevel := f\<rparr>) freq now fid =
        start c s freq now fid)"
    by (simp add: start_def startAnalysis_def analyze_def reset_erases frameLevel_def,
        simp add: resetVADState_def pva_defs fadd_def fmul_def fsub_def fl_zero)
  ultimately show ?thesis by simp
qed

text \<open>
  The never connected detector, the speaking one, and the speaking one after \<open>stop\<close>,
  each started with a frame of two bytes 255 at the clock reading 2000.
\<close>

theorem start_contract_witness:
  "\<not> isConnected initial_detector \<and>
   start default_config initial_detector [255, 255] 2000 8 = (False, initial_detector, []) \<and>
   isConnected speaking_detector \<and> isActive speaking_detector \<and>
   start default_config speaking_detector [255, 255] 2000 8 = (True, speaking_detector, []) \<and>
   isConnected (fst (snd (stop speaking_detector))) \<and>
   \<not> isActive (fst (snd (stop speaking_detector))) \<and>
   fst (start default_config (fst (snd (stop speaking_detector))) [255, 255] 2000 8) = True \<and>
   voiceStartTime (fst (snd (start default_config (fst (snd (stop speaking_detector)))
      [255, 255] 2000 8))) = 2000 \<and>
   \<not> isVoiceDetected (fst (snd (start default_config (fst (snd (stop speaking_detector)))
      [255, 255] 2000 8)))"
proof -
  let ?s = "fst (snd (stop speaking_detector))"
  have stopped: "?s =
      speaking_detector\<lparr>isActive := False, animationFrame := None, isVoiceDetected := False\<rparr>"
    by (simp add: stop_def speaking_detector_def trigger_def Let_def)
  have h0: "\<not> isConnected initial_detector"
    by (simp add: initial_detector_def)
  have h1: "isConnected speaking_detector" "isActive speaking_detector"
    by (simp_all add: speaking_detector_def)
  have h2: "isConnected ?s" "\<not> isActive ?s" "[255, 255] \<noteq> ([] :: 8 word list)"
    unfolding stopped by (simp_all add: speaking_detector_def)
  have lvl: "frameLevel default_config [255, 255] = 5404319552844595 / 9007199254740992"
    by (simp add: frameLevel_def default_config_def double_defs fl_evals)
  have vst: "voiceStartTime (fst (snd (start default_config ?s [255, 255] 2000 8))) = 2000"
    unfolding stopped
    by (simp add: start_state analyze_state lvl speaking_detector_def resetVADState_def,
        simp add: default_config_def pva_defs double_defs fl_evals)
  from h0 start_contract [where s = initial_detector and c = default_config and freq = "[255, 255]"
      and now = 2000 and fid = 8 and v = False and a = 0 and b = 0 and d = 0 and e = 0 and f = 0
      and ops = "[]"]
  have r0: "start default_config initial_detector [255, 255] 2000 8 =
      (False, initial_detector, [])"
    by blast
  from h1 start_contract [where s = speaking_detector and c = default_config and freq = "[255, 255]"
      and now = 2000 and fid = 8 and v = False and a = 0 and b = 0 and d = 0 and e = 0 and f = 0
      and ops = "[]"]
  have r1: "start default_config speaking_detector [255, 255] 2000 8 =
      (True, speaking_detector, [])"
    by blast
  from h2 start_contract [where s = ?s and c = default_config and freq = "[255, 255]"
      and now = 2000 and fid = 8 and v = False and a = 0 and b = 0 and d = 0 and e = 0 and f = 0
      and ops = "[]"]
  have r2: "fst (start default_config ?s [255, 255] 2000 8) = True"
    "\<not> isVoiceDetected (fst (snd (start default_config ?s [255, 255] 2000 8)))"
    by blast+
  from h0 h1 h2 vst r0 r1 r2 show ?thesis by blast
qed

section \<open>The controller's voice level\<close>

lemma clamp_bounds: "lo \<le> hi \<Longrightarrow> lo \<le> clamp lo hi x \<and> clamp lo hi x \<le> hi"
  by (simp add: clamp_def)

lemma setSpeed_ready:
  "isReady orb \<Longrightarrow> setSpeed cfg orb sp =
     (True,
      orb\<lparr>player := map_option (\<lambda>p. p\<lparr>speed := clamp (minSpeed cfg) (maxSpeed cfg) sp\<rparr>)
                       (player orb),
          currentSpeed := clamp (minSpeed cfg) (maxSpeed cfg) sp\<rparr>,
      [SpeedChange (clamp (minSpeed cfg) (maxSpeed cfg) sp)])"
  by (simp add: setSpeed_def Let_def)

lemma setVoiceLevel_ready:
  "isReady orb \<Longrightarrow> setVoiceLevel cfg orb level =
     (True,
      (fst (snd (setSpeed cfg orb (clamp (minVoiceLevel cfg) (maxVoiceLevel cfg) level))))
        \<lparr>player := map_option
           (\<lambda>p. p\<lparr>style_opacity := Some (clamp (minOpacity cfg) (maxOpacity cfg)
                        (fl (clamp (minVoiceLevel cfg) (maxVoiceLevel cfg) level / 2)))\<rparr>)
           (player (fst (snd (setSpeed cfg orb
              (clamp (minVoiceLevel cfg) (maxVoiceLevel cfg) level))))),
         voiceLevel := clamp (minVoiceLevel cfg) (maxVoiceLevel cfg) level,
         opacity := clamp (minOpacity cfg) (maxOpacity cfg)
                        (fl (clamp (minVoiceLevel cfg) (maxVoiceLevel cfg) level / 2))\<rparr>,
      snd (snd (setSpeed cfg orb (clamp (minVoiceLevel cfg) (maxVoiceLevel cfg) level))) @
      [VoiceChange (clamp (minVoiceLevel cfg) (maxVoiceLevel cfg) level)
         (clamp (minOpacity cfg) (maxOpacity cfg)
            (fl (clamp (minVoiceLevel cfg) (maxVoiceLevel cfg) level / 2)))])"
  by (simp add: setVoiceLevel_def fdiv_def Let_def split: prod.splits)

text \<open>
  With the level range \<open>[0.1, 3]\<close> and the opacity range \<open>[0.8, 1]\<close> of the default
  configuration, clamping the level first does not change the opacity.
\<close>

lemma default_opacity:
  "max (fl 0.8) (min 1 (fl (max (fl 0.1) (min 3 level) / 2))) =
   max (fl 0.8) (min 1 (fl (level / 2)))"
proof -
  have t: "fl 0.1 = 3602879701896397 / 36028797018963968"
    "fl 0.8 = 3602879701896397 / 4503599627370496"
    by (simp_all add: fl_evals)
  consider "level \<le> fl 0.1" | "fl 0.1 < level" "level < 3" | "3 \<le> level"
    by linarith
  then show ?thesis
  proof cases
    case 1
    then have "min 3 level = level" by (simp add: t)
    with 1 have l: "max (fl 0.1) (min 3 level) = fl 0.1" by simp
    have a: "fl (fl 0.1 / 2) \<le> 1 / 2"
      by (rule fl_le_half) (simp add: t)
    have b: "fl (level / 2) \<le> 1 / 2"
      by (rule fl_le_half) (use 1 in \<open>simp add: t\<close>)
    have c: "1 / 2 \<le> fl 0.8" unfolding t by simp
    from a c have "max (fl 0.8) (min 1 (fl (fl 0.1 / 2))) = fl 0.8" by simp
    moreover from b c have "max (fl 0.8) (min 1 (fl (level / 2))) = fl 0.8" by simp
    ultimately show ?thesis by (simp only: l)
  next
    case 2
    then have "min 3 level = level" by simp
    with 2 have "max (fl 0.1) (min 3 level) = level" by simp
    then show ?thesis by (simp only:)
  next
    case 3
    then have "min 3 level = 3" by simp
    then have l: "max (fl 0.1) (min 3 level) = 3" by (simp add: t)
    have a: "fl (3 / 2) = 3 / 2" by (simp add: fl_evals)
    have "1 \<le> fl (level / 2)"
      by (rule fl_ge_one) (use 3 in simp)
    then have "min 1 (fl (level / 2)) = 1" by simp
    moreover have "min 1 (fl (3 / 2)) = 1" by (simp add: a)
    ultimately show ?thesis by (simp only: l)
  qed
qed

text \<open>
  The opacity is computed from half the clamped level, not from half the level as
  passed. With the greatest voice level 1 and the opacity range \<open>[0.8, 1]\<close>, the level
  5 is clamped to 1 and the opacity written is 0.8, where half the level as passed,
  2.5, clamped to the opacity range is 1.
\<close>

theorem opacity_from_clamped_level:
  "isReady ready_core \<and>
   setVoiceLevel narrow_core_config ready_core 5 =
     (True,
      ready_core\<lparr>currentSpeed := 1, voiceLevel := 1,
                  opacity := 3602879701896397 / 4503599627370496,
                  player := Some \<lparr>speed = 1, loop = True,
                    style_opacity = Some (3602879701896397 / 4503599627370496)\<rparr>\<rparr>,
      [SpeedChange 1, VoiceChange 1 (3602879701896397 / 4503599627370496)]) \<and>
   max (minOpacity narrow_core_config) (min (maxOpacity narrow_core_config) (fl (5 / 2))) = 1 \<and>
   (3602879701896397 / 4503599627370496 :: real) < 1"
proof -
  have r: "isReady ready_core"
    by (simp add: isReady_def ready_core_def)
  have v: "setVoiceLevel narrow_core_config ready_core 5 =
     (True,
      ready_core\<lparr>currentSpeed := 1, voiceLevel := 1,
                  opacity := 3602879701896397 / 4503599627370496,
                  player := Some \<lparr>speed = 1, loop = True,
                    style_opacity = Some (3602879701896397 / 4503599627370496)\<rparr>\<rparr>,
      [SpeedChange 1, VoiceChange 1 (3602879701896397 / 4503599627370496)])"
    unfolding setVoiceLevel_ready [OF r] setSpeed_ready [OF r]
    by (simp add: narrow_core_config_def default_core_config_def clamp_def ready_core_def
        fl_evals)
  have f: "max (minOpacity narrow_core_config)
      (min (maxOpacity narrow_core_config) (fl (5 / 2))) = 1"
    by (simp add: narrow_core_config_def default_core_config_def fl_evals)
  from r v f show ?thesis by simp
qed

text \<open>
  Claim C9, as the code has it. On a ready controller \<open>setVoiceLevel(level)\<close> returns
  success. The level is clamped to \<open>L = max minVoiceLevel (min maxVoiceLevel level)\<close>:
  a level inside \<open>[minVoiceLevel, maxVoiceLevel]\<close> is kept, one at or below
  \<open>minVoiceLevel\<close> becomes \<open>minVoiceLevel\<close>, one at or above \<open>maxVoiceLevel\<close> becomes
  \<open>maxVoiceLevel\<close>. The state left is the one \<open>setSpeed(L)\<close> leaves, with the
  player's opacity, \<open>voiceLevel\<close> and \<open>opacity\<close> written: the speed of state and
  player is \<open>L\<close> clamped to \<open>[minSpeed, maxSpeed]\<close>, \<open>voiceLevel\<close> is \<open>L\<close>, and the opacity
  of state and player is the rounded half of the clamped level \<open>L\<close>, clamped to
  \<open>[minOpacity, maxOpacity]\<close>. The events are \<open>speedChange\<close> with the speed and then
  \<open>voiceChange\<close> with \<open>L\<close> and the opacity. In the default configuration the opacity
  is also the rounded half of the level as passed, clamped to \<open>[0.8, 1]\<close>. On a
  controller that is not ready the call returns failure and changes and triggers
  nothing.
\<close>

theorem setVoiceLevel_contract:
  "(isReady orb \<longrightarrow>
      fst (setVoiceLevel cfg orb level) = True \<and>
      voiceLevel (fst (snd (setVoiceLevel cfg orb level))) =
        max (minVoiceLevel cfg) (min (maxVoiceLevel cfg) level) \<and>
      (minVoiceLevel cfg \<le> level \<and> level \<le> maxVoiceLevel cfg \<longrightarrow>
         voiceLevel (fst (snd (setVoiceLevel cfg orb level))) = level) \<and>
      (level \<le> minVoiceLevel cfg \<longrightarrow>
         voiceLevel (fst (snd (setVoiceLevel cfg orb level))) = minVoiceLevel cfg) \<and>
      (minVoiceLevel cfg \<le> maxVoiceLevel cfg \<and> maxVoiceLevel cfg \<le> level \<longrightarrow>
         voiceLevel (fst (snd (setVoiceLevel cfg orb level))) = maxVoiceLevel cfg) \<and>
      fst (snd (setVoiceLevel cfg orb level)) =
        (fst (snd (setSpeed cfg orb (voiceLevel (fst (snd (setVoiceLevel cfg orb level)))))))
          \<lparr>player := map_option
             (\<lambda>p. p\<lparr>style_opacity := Some (opacity (fst (snd (setVoiceLevel cfg orb level))))\<rparr>)
             (player (fst (snd (setSpeed cfg orb
                (voiceLevel (fst (snd (setVoiceLevel cfg orb level)))))))),
           voiceLevel := voiceLevel (fst (snd (setVoiceLevel cfg orb level))),
           opacity := opacity (fst (snd (setVoiceLevel cfg orb level)))\<rparr> \<and>
      currentSpeed (fst (snd (setVoiceLevel cfg orb level))) =
        max (minSpeed cfg) (min (maxSpeed cfg)
          (max (minVoiceLevel cfg) (min (maxVoiceLevel cfg) level))) \<and>
      map_option speed (player (fst (snd (setVoiceLevel cfg orb level)))) =
        Some (max (minSpeed cfg) (min (maxSpeed cfg)
          (max (minVoiceLevel cfg) (min (maxVoiceLevel cfg) level)))) \<and>
      opacity (fst (snd (setVoiceLevel cfg orb level))) =
        max (minOpacity cfg) (min (maxOpacity cfg)
          (fl (max (minVoiceLevel cfg) (min (maxVoiceLevel cfg) level) / 2))) \<and>
      map_option style_opacity (player (fst (snd (setVoiceLevel cfg orb level)))) =
        Some (Some (max (minOpacity cfg) (min (maxOpacity cfg)
          (fl (max (minVoiceLevel cfg) (min (maxVoiceLevel cfg) level) / 2))))) \<and>
      snd (snd (setVoiceLevel cfg orb level)) =
        [SpeedChange (max (minSpeed cfg) (min (maxSpeed cfg)
           (max (minVoiceLevel cfg) (min (maxVoiceLevel cfg) level)))),
         VoiceChange (max (minVoiceLevel cfg) (min (maxVoiceLevel cfg) level))
           (max (minOpacity cfg) (min (maxOpacity cfg)
              (fl (max (minVoiceLevel cfg) (min (maxVoiceLevel cfg) level) / 2))))] \<and>
      opacity (fst (snd (setVoiceLevel default_core_config orb level))) =
        max (fl 0.8) (min 1 (fl (level / 2)))) \<and>
   (\<not> isReady orb \<longrightarrow> setVoiceLevel cfg orb level = (False, orb, []))"
proof (cases "isReady orb")
  case False
  then show ?thesis by (simp add: setVoiceLevel_def)
next
  case True
  then obtain p where p: "player orb = Some p" by (auto simp: isReady_def)
  have lvl: "voiceLevel (fst (snd (setVoiceLevel cfg orb level))) =
      max (minVoiceLevel cfg) (min (maxVoiceLevel cfg) level)"
    using True by (simp add: setVoiceLevel_ready clamp_def)
  have opa: "opacity (fst (snd (setVoiceLevel cfg orb level))) =
      max (minOpacity cfg) (min (maxOpacity cfg)
        (fl (max (minVoiceLevel cfg) (min (maxVoiceLevel cfg) level) / 2)))"
    using True by (simp add: setVoiceLevel_ready clamp_def)
  have kept: "minVoiceLevel cfg \<le> level \<and> level \<le> maxVoiceLevel cfg \<longrightarrow>
      max (minVoiceLevel cfg) (min (maxVoiceLevel cfg) level) = level"
    by (simp add: max_def min_def)
  have low: "level \<le> minVoiceLevel cfg \<longrightarrow>
      max (minVoiceLevel cfg) (min (maxVoiceLevel cfg) level) = minVoiceLevel cfg"
    by (simp add: max_def min_def)
  have high: "minVoiceLevel cfg \<le> maxVoiceLevel cfg \<and> maxVoiceLevel cfg \<le> level \<longrightarrow>
      max (minVoiceLevel cfg) (min (maxVoiceLevel cfg) level) = maxVoiceLevel cfg"
    by (simp add: max_def min_def)
  have state: "fst (snd (setVoiceLevel cfg orb level)) =
        (fst (snd (setSpeed cfg orb (voiceLevel (fst (snd (setVoiceLevel cfg orb level)))))))
          \<lparr>player := map_option
             (\<lambda>p. p\<lparr>style_opacity := Some (opacity (fst (snd (setVoiceLevel cfg orb level))))\<rparr>)
             (player (fst (snd (setSpeed cfg orb
                (voiceLevel (fst (snd (setVoiceLevel cfg orb level)))))))),
           voiceLevel := voiceLevel (fst (snd (setVoiceLevel cfg orb level))),
           opacity := opacity (fst (snd (setVoiceLevel cfg orb level)))\<rparr>"
    using True by (simp add: setVoiceLevel_ready setSpeed_ready)
  have rest: "fst (setVoiceLevel cfg orb level) = True \<and>
      currentSpeed (fst (snd (setVoiceLevel cfg orb level))) =
        max (minSpeed cfg) (min (maxSpeed cfg)
          (max (minVoiceLevel cfg) (min (maxVoiceLevel cfg) level))) \<and>
      map_option speed (player (fst (snd (setVoiceLevel cfg orb level)))) =
        Some (max (minSpeed cfg) (min (maxSpeed cfg)
          (max (minVoiceLevel cfg) (min (maxVoiceLevel cfg) level)))) \<and>
      map_option style_opacity (player (fst (snd (setVoiceLevel cfg orb level)))) =
        Some (Some (max (minOpacity cfg) (min (maxOpacity cfg)
          (fl (max (minVoiceLevel cfg) (min (maxVoiceLevel cfg) level) / 2))))) \<and>
      snd (snd (setVoiceLevel cfg orb level)) =
        [SpeedChange (max (minSpeed cfg) (min (maxSpeed cfg)
           (max (minVoiceLevel cfg) (min (maxVoiceLevel cfg) level)))),
         VoiceChange (max (minVoiceLevel cfg) (min (maxVoiceLevel cfg) level))
           (max (minOpacity cfg) (min (maxOpacity cfg)
              (fl (max (minVoiceLevel cfg) (min (maxVoiceLevel cfg) level) / 2))))]"
    using True p by (simp add: setVoiceLevel_ready setSpeed_ready clamp_def)
  have "opacity (fst (snd (setVoiceLevel default_core_config orb level))) =
      max (fl 0.8) (min 1 (fl (max (fl 0.1) (min 3 level) / 2)))"
    using True by (simp add: setVoiceLevel_ready default_core_config_def clamp_def)
  then have dflt: "opacity (fst (snd (setVoiceLevel default_core_config orb level))) =
      max (fl 0.8) (min 1 (fl (level / 2)))"
    by (simp only: default_opacity)
  from True lvl opa kept low high state rest dflt show ?thesis
    by (simp only:) blast
qed

text \<open>
  The ready controller in the default configuration: the level 5 gives level 3, speed 3
  and opacity 1; the level 1.75 is kept and gives the opacity 0.875; the level 0 gives
  the least level 0.1 and the least opacity 0.8. An uninitialised controller is left as
  it is.
\<close>

theorem setVoiceLevel_contract_witness:
  "isReady ready_core \<and>
   minVoiceLevel default_core_config \<le> maxVoiceLevel default_core_config \<and>
   maxVoiceLevel default_core_config \<le> 5 \<and>
   voiceLevel (fst (snd (setVoiceLevel default_core_config ready_core 5))) =
     maxVoiceLevel default_core_config \<and>
   setVoiceLevel default_core_config ready_core 5 =
     (True,
      ready_core\<lparr>currentSpeed := 3, voiceLevel := 3, opacity := 1,
                  player := Some \<lparr>speed = 3, loop = True, style_opacity = Some 1\<rparr>\<rparr>,
      [SpeedChange 3, VoiceChange 3 1]) \<and>
   minVoiceLevel default_core_config \<le> 7 / 4 \<and> 7 / 4 \<le> maxVoiceLevel default_core_config \<and>
   voiceLevel (fst (snd (setVoiceLevel default_core_config ready_core (7 / 4)))) = 7 / 4 \<and>
   setVoiceLevel default_core_config ready_core (7 / 4) =
     (True,
      ready_core\<lparr>currentSpeed := 7 / 4, voiceLevel := 7 / 4, opacity := 7 / 8,
                  player := Some \<lparr>speed = 7 / 4, loop = True, style_opacity = Some (7 / 8)\<rparr>\<rparr>,
      [SpeedChange (7 / 4), VoiceChange (7 / 4) (7 / 8)]) \<and>
   0 \<le> minVoiceLevel default_core_config \<and>
   voiceLevel (fst (snd (setVoiceLevel default_core_config ready_core 0))) =
     minVoiceLevel default_core_config \<and>
   opacity (fst (snd (setVoiceLevel default_core_config ready_core 0))) =
     max (fl 0.8) (min 1 (fl (0 / 2))) \<and>
   setVoiceLevel default_core_config ready_core 0 =
     (True,
      ready_core\<lparr>currentSpeed := 3602879701896397 / 36028797018963968,
                  voiceLevel := 3602879701896397 / 36028797018963968,
                  opacity := 3602879701896397 / 4503599627370496,
                  player := Some \<lparr>speed = 3602879701896397 / 36028797018963968, loop = True,
                    style_opacity = Some (3602879701896397 / 4503599627370496)\<rparr>\<rparr>,
      [SpeedChange (3602879701896397 / 36028797018963968),
       VoiceChange (3602879701896397 / 36028797018963968)
         (3602879701896397 / 4503599627370496)]) \<and>
   \<not> isReady (ready_core\<lparr>isInitialized := False\<rparr>) \<and>
   setVoiceLevel default_core_config (ready_core\<lparr>isInitialized := False\<rparr>) 5 =
     (False, ready_core\<lparr>isInitialized := False\<rparr>, [])"
proof -
  have r: "isReady ready_core" "\<not> isReady (ready_core\<lparr>isInitialized := False\<rparr>)"
    by (simp_all add: isReady_def ready_core_def)
  have b: "minVoiceLevel default_core_config \<le> maxVoiceLevel default_core_config"
    "maxVoiceLevel default_core_config \<le> 5"
    "minVoiceLevel default_core_config \<le> 7 / 4" "7 / 4 \<le> maxVoiceLevel default_core_config"
    "0 \<le> minVoiceLevel default_core_config"
    by (simp_all add: default_core_config_def fl_evals)
  have v5: "setVoiceLevel default_core_config ready_core 5 =
     (True,
      ready_core\<lparr>currentSpeed := 3, voiceLevel := 3, opacity := 1,
                  player := Some \<lparr>speed = 3, loop = True, style_opacity = Some 1\<rparr>\<rparr>,
      [SpeedChange 3, VoiceChange 3 1])"
    unfolding setVoiceLevel_ready [OF r(1)] setSpeed_ready [OF r(1)]
    by (simp add: default_core_config_def clamp_def ready_core_def fl_evals)
  have v2: "setVoiceLevel default_core_config ready_core (7 / 4) =
     (True,
      ready_core\<lparr>currentSpeed := 7 / 4, voiceLevel := 7 / 4, opacity := 7 / 8,
                  player := Some \<lparr>speed = 7 / 4, loop = True, style_opacity = Some (7 / 8)\<rparr>\<rparr>,
      [SpeedChange (7 / 4), VoiceChange (7 / 4) (7 / 8)])"
    unfolding setVoiceLevel_ready [OF r(1)] setSpeed_ready [OF r(1)]
    by (simp add: default_core_config_def clamp_def ready_core_def fl_evals)
  have v0: "setVoiceLevel default_core_config ready_core 0 =
     (True,
      ready_core\<lparr>currentSpeed := 3602879701896397 / 36028797018963968,
                  voiceLevel := 3602879701896397 / 36028797018963968,
                  opacity := 3602879701896397 / 4503599627370496,
                  player := Some \<lparr>speed = 3602879701896397 / 36028797018963968, loop = True,
                    style_opacity = Some (3602879701896397 / 4503599627370496)\<rparr>\<rparr>,
      [SpeedChange (3602879701896397 / 36028797018963968),
       VoiceChange (3602879701896397 / 36028797018963968)
         (3602879701896397 / 4503599627370496)])"
    unfolding setVoiceLevel_ready [OF r(1)] setSpeed_ready [OF r(1)]
    by (simp add: default_core_config_def clamp_def ready_core_def fl_evals)
  from r(1) b(1,2)
    setVoiceLevel_contract [where orb = ready_core and cfg = default_core_config and level = 5]
  have high: "voiceLevel (fst (snd (setVoiceLevel default_core_config ready_core 5))) =
     maxVoiceLevel default_core_config"
    by blast
  from r(1) b(3,4)
    setVoiceLevel_contract [where orb = ready_core and cfg = default_core_config
      and level = "7 / 4"]
  have kept: "voiceLevel (fst (snd (setVoiceLevel default_core_config ready_core (7 / 4)))) =
     7 / 4"
    by blast
  from r(1) b(5)
    setVoiceLevel_contract [where orb = ready_core and cfg = default_core_config and level = 0]
  have low: "voiceLevel (fst (snd (setVoiceLevel default_core_config ready_core 0))) =
     minVoiceLevel default_core_config"
    and dflt: "opacity (fst (snd (setVoiceLevel default_core_config ready_core 0))) =
     max (fl 0.8) (min 1 (fl (0 / 2)))"
    by blast+
  from r(2)
    setVoiceLevel_contract [where orb = "ready_core\<lparr>isInitialized := False\<rparr>"
      and cfg = default_core_config and level = 5]
  have unready: "setVoiceLevel default_core_config (ready_core\<lparr>isInitialized := False\<rparr>) 5 =
     (False, ready_core\<lparr>isInitialized := False\<rparr>, [])"
    by blast
  from r b v5 v2 v0 high kept low dflt unready show ?thesis
    by (simp only:) blast
qed

section \<open>The wiring of detector events to controller calls\<close>

lemma dispatch_handlers:
  "dispatch (setupVADHandlers no_listeners) VoiceStart = [Play]"
  "dispatch (setupVADHandlers no_listeners) VoiceEnd = [Pause]"
  "dispatch (setupVADHandlers no_listeners) (VoiceLevel raw sm ts) =
     [SetVoiceLevel (clamp (fl 0.1) 3 (fl (sm * 3)))]"
  "dispatch (setupVADHandlers no_listeners) Error = []"
  by (simp_all add: dispatch_def setupVADHandlers_def on_def no_listeners_def eventName_def
      fmul_def Let_def)

text \<open>
  Claim C10: with the handlers \<open>setupVADHandlers\<close> registers on a fresh detector, a
  \<open>voiceStart\<close> event makes exactly the call \<open>play()\<close>, a \<open>voiceEnd\<close> event exactly
  \<open>pause()\<close>, a \<open>voiceLevel\<close> event exactly \<open>setVoiceLevel\<close> of its smoothed value
  times 3 (rounded), clamped to \<open>[0.1, 3]\<close>: the product itself when it lies in that
  interval, 0.1 when it is at most 0.1, 3 when it is at least 3, and so always a level
  in \<open>[0.1, 3]\<close>. That is one controller call per event (and none for an \<open>error\<close>
  event, which is no transition of the detection). For a tick of the detector that is
  the level call, then \<open>play()\<close> if the tick fired \<open>voiceStart\<close>, then \<open>pause()\<close> if it
  fired \<open>voiceEnd\<close>.
\<close>

theorem handlers_wiring:
  "dispatch (setupVADHandlers no_listeners) VoiceStart = [Play] \<and>
   dispatch (setupVADHandlers no_listeners) VoiceEnd = [Pause] \<and>
   dispatch (setupVADHandlers no_listeners) (VoiceLevel raw sm ts) =
     [SetVoiceLevel (max (fl 0.1) (min 3 (fl (sm * 3))))] \<and>
   (fl 0.1 \<le> fl (sm * 3) \<and> fl (sm * 3) \<le> 3 \<longrightarrow>
      dispatch (setupVADHandlers no_listeners) (VoiceLevel raw sm ts) =
        [SetVoiceLevel (fl (sm * 3))]) \<and>
   (fl (sm * 3) \<le> fl 0.1 \<longrightarrow>
      dispatch (setupVADHandlers no_listeners) (VoiceLevel raw sm ts) =
        [SetVoiceLevel (fl 0.1)]) \<and>
   (3 \<le> fl (sm * 3) \<longrightarrow>
      dispatch (setupVADHandlers no_listeners) (VoiceLevel raw sm ts) = [SetVoiceLevel 3]) \<and>
   fl 0.1 \<le> max (fl 0.1) (min 3 (fl (sm * 3))) \<and>
   max (fl 0.1) (min 3 (fl (sm * 3))) \<le> 3 \<and>
   dispatch (setupVADHandlers no_listeners) Error = [] \<and>
   length (dispatch (setupVADHandlers no_listeners) ev) = (if ev = Error then 0 else 1) \<and>
   controllerCalls (setupVADHandlers no_listeners) (snd (processVoiceActivity c s l now)) =
     SetVoiceLevel (max (fl 0.1) (min 3
       (fl (smoothedLevel (fst (processVoiceActivity c s l now)) * 3)))) #
     (if fired VoiceStart (processVoiceActivity c s l now) then [Play] else []) @
     (if fired VoiceEnd (processVoiceActivity c s l now) then [Pause] else [])"
proof -
  have tenth: "fl 0.1 \<le> (3 :: real)"
    by (simp add: fl_evals)
  have level: "dispatch (setupVADHandlers no_listeners) (VoiceLevel raw sm ts) =
     [SetVoiceLevel (max (fl 0.1) (min 3 (fl (sm * 3))))]"
    by (simp add: dispatch_handlers clamp_def)
  have kept: "fl 0.1 \<le> fl (sm * 3) \<and> fl (sm * 3) \<le> 3 \<longrightarrow>
      max (fl 0.1) (min 3 (fl (sm * 3))) = fl (sm * 3)"
    by (simp add: max_def min_def)
  have low: "fl (sm * 3) \<le> fl 0.1 \<longrightarrow> max (fl 0.1) (min 3 (fl (sm * 3))) = fl 0.1"
    by (simp add: max_def min_def)
  have high: "3 \<le> fl (sm * 3) \<longrightarrow> max (fl 0.1) (min 3 (fl (sm * 3))) = 3"
    using tenth by (simp add: max_def min_def)
  have bounds: "fl 0.1 \<le> max (fl 0.1) (min 3 (fl (sm * 3)))"
    "max (fl 0.1) (min 3 (fl (sm * 3))) \<le> 3"
    using tenth by (simp_all add: max_def min_def)
  have one: "length (dispatch (setupVADHandlers no_listeners) ev) = (if ev = Error then 0 else 1)"
    by (cases ev) (simp_all add: dispatch_handlers)
  have tick: "controllerCalls (setupVADHandlers no_listeners)
       (snd (processVoiceActivity c s l now)) =
     SetVoiceLevel (max (fl 0.1) (min 3
       (fl (smoothedLevel (fst (processVoiceActivity c s l now)) * 3)))) #
     (if fired VoiceStart (processVoiceActivity c s l now) then [Play] else []) @
     (if fired VoiceEnd (processVoiceActivity c s l now) then [Pause] else [])"
    unfolding clamp_def [symmetric]
    by (simp add: controllerCalls_def pva_defs dispatch_handlers)
  from level kept low high bounds one tick dispatch_handlers(1,2,4) show ?thesis
    by (simp only:) blast
qed

text \<open>
  A level event with the smoothed value 0.5 calls \<open>setVoiceLevel(1.5)\<close>, one with the
  smoothed value 0 calls \<open>setVoiceLevel(0.1)\<close>, one with the smoothed value 2 calls
  \<open>setVoiceLevel(3)\<close>; the tick of the shifted scenario that starts the voice period
  calls \<open>setVoiceLevel(1.5)\<close> and \<open>play()\<close>.
\<close>

theorem handlers_wiring_witness:
  "fl 0.1 \<le> fl (0.5 * 3) \<and> fl (0.5 * 3) \<le> 3 \<and>
   dispatch (setupVADHandlers no_listeners) (VoiceLevel 0.5 0.5 1000) = [SetVoiceLevel 1.5] \<and>
   fl (0 * 3) \<le> fl 0.1 \<and>
   dispatch (setupVADHandlers no_listeners) (VoiceLevel 0 0 1016) =
     [SetVoiceLevel (3602879701896397 / 36028797018963968)] \<and>
   3 \<le> fl (2 * 3) \<and>
   dispatch (setupVADHandlers no_listeners) (VoiceLevel 2 2 1032) = [SetVoiceLevel 3] \<and>
   controllerCalls (setupVADHandlers no_listeners)
     (snd (processVoiceActivity scenario_config
        (run scenario_config initial_detector [(0.5, 1000), (0.5, 1050)]) 0.5 1100)) =
   [SetVoiceLevel 1.5, Play]"
proof -
  let ?s = "run scenario_config initial_detector [(0.5, 1000), (0.5, 1050)]"
  have h: "fl 0.1 \<le> fl (0.5 * 3) \<and> fl (0.5 * 3) \<le> 3" "fl (0 * 3) \<le> fl 0.1"
    "3 \<le> fl (2 * 3)"
    by (simp_all add: fl_evals)
  have v: "fl (0.5 * 3) = 1.5" "fl 0.1 = 3602879701896397 / 36028797018963968"
    by (simp_all add: fl_evals)
  have t: "SetVoiceLevel (max (fl 0.1) (min 3
       (fl (smoothedLevel (fst (processVoiceActivity scenario_config ?s 0.5 1100)) * 3)))) #
     (if fired VoiceStart (processVoiceActivity scenario_config ?s 0.5 1100)
      then [Play] else []) @
     (if fired VoiceEnd (processVoiceActivity scenario_config ?s 0.5 1100)
      then [Pause] else []) =
     [SetVoiceLevel 1.5, Play]"
    by (simp add: scenario_defs)
  from h(1)
    handlers_wiring [where raw = "0.5" and sm = "0.5" and ts = 1000 and ev = VoiceStart
      and c = scenario_config and s = ?s and l = "0.5" and now = 1100]
  have d1: "dispatch (setupVADHandlers no_listeners) (VoiceLevel 0.5 0.5 1000) =
      [SetVoiceLevel (fl (0.5 * 3))]"
    and d4: "controllerCalls (setupVADHandlers no_listeners)
       (snd (processVoiceActivity scenario_config ?s 0.5 1100)) =
     SetVoiceLevel (max (fl 0.1) (min 3
       (fl (smoothedLevel (fst (processVoiceActivity scenario_config ?s 0.5 1100)) * 3)))) #
     (if fired VoiceStart (processVoiceActivity scenario_config ?s 0.5 1100)
      then [Play] else []) @
     (if fired VoiceEnd (processVoiceActivity scenario_config ?s 0.5 1100)
      then [Pause] else [])"
    by blast+
  from h(2)
    handlers_wiring [where raw = 0 and sm = 0 and ts = 1016 and ev = VoiceStart
      and c = scenario_config and s = initial_detector and l = 0 and now = 1100]
  have d2: "dispatch (setupVADHandlers no_listeners) (VoiceLevel 0 0 1016) =
      [SetVoiceLevel (fl 0.1)]"
    by blast
  from h(3)
    handlers_wiring [where raw = 2 and sm = 2 and ts = 1032 and ev = VoiceStart
      and c = scenario_config and s = initial_detector and l = 0 and now = 1100]
  have d3: "dispatch (setupVADHandlers no_listeners) (VoiceLevel 2 2 1032) = [SetVoiceLevel 3]"
    by blast
  from h d1 [unfolded v] d2 [unfolded v] d3 d4 [unfolded t] show ?thesis
    by (simp only:)
qed

end
